theory Spec2Isabelle
  imports Main "HOL-Library.Sublist" "HOL-Library.Word" "HOL-Library.AList"
begin

section \<open>The hijack task (modules, hijack module)\<close>

text \<open>
  The fields of \<^verbatim>\<open>db.Entity\<close> and \<^verbatim>\<open>db.Capture\<close> that the hijack module reads.
  Go's \<^verbatim>\<open>[]int\<close> is a list of integers; the module only compares them for equality.
\<close>

record Entity =
  name :: string
  email :: string
  OwnedOrigins :: "int list"
  OwnedPrefixes :: "string list"

record Capture =
  ASPath :: "int list"

text \<open>
  \<^verbatim>\<open>isEvent\<close>: the inner loop over \<^verbatim>\<open>cap.ASPath\<close> for one owned origin \<open>as\<close>. The result
  says whether the loop hit \<^verbatim>\<open>asStep == as\<close>, where the source returns false from the
  whole function.
\<close>

fun isEvent_path :: "int \<Rightarrow> int list \<Rightarrow> bool" where
  "isEvent_path as [] = False"
| "isEvent_path as (asStep # rest) = (if asStep = as then True else isEvent_path as rest)"

text \<open>The outer loop over \<^verbatim>\<open>ent.OwnedOrigins\<close>; falling out of it returns true.\<close>

fun isEvent_origins :: "int list \<Rightarrow> int list \<Rightarrow> bool" where
  "isEvent_origins [] path = True"
| "isEvent_origins (as # rest) path =
     (if isEvent_path as path then False else isEvent_origins rest path)"

definition isEvent :: "Entity \<Rightarrow> Capture \<Rightarrow> bool" where
  "isEvent ent cap = isEvent_origins (OwnedOrigins ent) (ASPath cap)"

text \<open>
  The counting loop of \<^verbatim>\<open>hijackModule.Run\<close> over the captures the read stream yields:
  the pair is (\<^verbatim>\<open>msgCt\<close>, \<^verbatim>\<open>events\<close>).
\<close>

fun hijack_scan :: "Entity \<Rightarrow> Capture list \<Rightarrow> nat \<times> nat \<Rightarrow> nat \<times> nat" where
  "hijack_scan ent [] (msgCt, events) = (msgCt, events)"
| "hijack_scan ent (cap # rest) (msgCt, events) =
     hijack_scan ent rest (msgCt + 1, if isEvent ent cap then events + 1 else events)"

section \<open>Errors and formatting\<close>

text \<open>
  Go errors are values carrying a message. \<open>ErrorString\<close> is what \<^verbatim>\<open>errors.New\<close> and
  \<^verbatim>\<open>fmt.Errorf\<close> build, \<open>Wrapped\<close> is \<^verbatim>\<open>errors.Wrap\<close>; the other constructors are the
  sentinels of the standard library that the executor can meet (\<^verbatim>\<open>sql.ErrTxDone\<close>,
  \<^verbatim>\<open>context.Canceled\<close>, \<^verbatim>\<open>context.DeadlineExceeded\<close>) and an error reported by the
  database driver. A Go \<^verbatim>\<open>error\<close> result is an \<open>error option\<close>: \<open>None\<close> is nil.
\<close>

datatype error =
    ErrorString string
  | Wrapped string error
  | ErrTxDone
  | ContextCanceled
  | DeadlineExceeded
  | DriverError string

text \<open>The verb \<^verbatim>\<open>%d\<close> of \<^verbatim>\<open>fmt.Sprintf\<close> on an integer: decimal digits, with a sign.\<close>

fun digits :: "nat \<Rightarrow> string" where
  "digits n = (if n < 10 then [''0123456789'' ! n]
               else digits (n div 10) @ [''0123456789'' ! (n mod 10)])"

declare digits.simps [simp del]

definition fmt_d :: "int \<Rightarrow> string" where
  "fmt_d i = (if i < 0 then CHR ''-'' # digits (nat (- i)) else digits (nat i))"

text \<open>Indexing a Go \<^verbatim>\<open>map[string]string\<close>: a missing key reads as the empty string.\<close>

definition map_index :: "(string \<rightharpoonup> string) \<Rightarrow> string \<Rightarrow> string" where
  "map_index m k = (case m k of None \<Rightarrow> [] | Some v \<Rightarrow> v)"

section \<open>The periodic daemon (modules, periodic module)\<close>

text \<open>
  \<^verbatim>\<open>periodicModule.Run\<close> calls three functions that are not part of the module:
  \<^verbatim>\<open>util.CheckForKeys\<close>, \<^verbatim>\<open>time.ParseDuration\<close> (a duration is a number of nanoseconds) and
  \<^verbatim>\<open>util.StringToOptMap\<close>. They are parameters of the model.
\<close>

record periodic_env =
  CheckForKeys :: "(string \<rightharpoonup> string) \<Rightarrow> string list \<Rightarrow> bool"
  ParseDuration :: "string \<Rightarrow> error + int"
  StringToOptMap :: "string \<Rightarrow> error + (string \<rightharpoonup> string)"

text \<open>
  What the \<^verbatim>\<open>select\<close> of the loop receives, in the order it receives it: the daemon's
  cancel signal, or a tick of the ticker. The server's \<^verbatim>\<open>RunModule\<close> is outside the
  module, so a tick carries the error \<^verbatim>\<open>RunModule\<close> returns on it (\<open>None\<close> is nil).
\<close>

datatype periodic_event = CancelEv | TickEv "error option"

text \<open>
  The loop's variables \<^verbatim>\<open>runC\<close> and \<^verbatim>\<open>errC\<close>, the calls of \<^verbatim>\<open>RunModule\<close> made so far
  (module, generated id, arguments; oldest first) and the number of calls of the finish
  callback \<^verbatim>\<open>f\<close>.
\<close>

record periodic_state =
  runC :: int
  errC :: int
  invoked :: "(string \<times> string \<times> (string \<rightharpoonup> string)) list"
  finishes :: nat

text \<open>
  \<open>Returns\<close>: \<^verbatim>\<open>Run\<close> returned (always nil). \<open>Waits\<close>: the events are used up and the loop
  is blocked in its \<^verbatim>\<open>select\<close>. \<open>Panics\<close>: \<^verbatim>\<open>time.NewTicker\<close> panics on a duration that
  is not positive.
\<close>

datatype periodic_result = Panics | Waits periodic_state | Returns periodic_state

fun periodic_loop ::
  "string \<Rightarrow> (string \<rightharpoonup> string) \<Rightarrow> periodic_state \<Rightarrow> periodic_event list \<Rightarrow> periodic_result"
where
  "periodic_loop modval argmap st [] = Waits st"
| "periodic_loop modval argmap st (CancelEv # evs) = Returns st"
| "periodic_loop modval argmap st (TickEv err # evs) =
     (let mID = ''periodic-'' @ modval @ fmt_d (runC st);
          st1 = st\<lparr>invoked := invoked st @ [(modval, mID, argmap)]\<rparr>;
          st2 = (if err \<noteq> None then st1\<lparr>errC := errC st1 + 1\<rparr> else st1\<lparr>errC := 0\<rparr>)
      in if errC st2 \<ge> 5 then Returns (st2\<lparr>finishes := finishes st2 + 1\<rparr>)
         else periodic_loop modval argmap (st2\<lparr>runC := runC st2 + 1\<rparr>) evs)"

definition periodic_init :: periodic_state where
  "periodic_init = \<lparr>runC = 0, errC = 0, invoked = [], finishes = 0\<rparr>"

definition periodic_Run ::
  "periodic_env \<Rightarrow> (string \<rightharpoonup> string) \<Rightarrow> periodic_event list \<Rightarrow> periodic_result"
where
  "periodic_Run env args evs =
     (if \<not> CheckForKeys env args [''duration'', ''module'', ''args'']
      then Returns (periodic_init\<lparr>finishes := 1\<rparr>)
      else
        let dval = map_index args ''duration'';
            modval = map_index args ''module'';
            argval = map_index args ''args''
        in case ParseDuration env dval of
             Inl e \<Rightarrow> Returns (periodic_init\<lparr>finishes := 1\<rparr>)
           | Inr dur \<Rightarrow>
               (case StringToOptMap env argval of
                  Inl e \<Rightarrow> Returns (periodic_init\<lparr>finishes := 1\<rparr>)
                | Inr argmap \<Rightarrow>
                    if dur \<le> 0 then Panics
                    else periodic_loop modval argmap periodic_init evs))"

text \<open>
  The vocabulary of the claim about the daemon. Options are valid when \<^verbatim>\<open>Run\<close> reaches
  its loop. \<open>failed\<close> says that a tick's \<^verbatim>\<open>RunModule\<close> returned an error, and
  \<open>five_in_a_row\<close> that a list of tick results has five failures in a row somewhere.
\<close>

definition valid_options :: "periodic_env \<Rightarrow> (string \<rightharpoonup> string) \<Rightarrow> bool" where
  "valid_options env args \<longleftrightarrow>
     CheckForKeys env args [''duration'', ''module'', ''args''] \<and>
     (\<exists>dur. ParseDuration env (map_index args ''duration'') = Inr dur \<and> 0 < dur) \<and>
     (\<exists>argmap. StringToOptMap env (map_index args ''args'') = Inr argmap)"

definition failed :: "error option \<Rightarrow> bool" where
  "failed r \<longleftrightarrow> r \<noteq> None"

definition five_in_a_row :: "error option list \<Rightarrow> bool" where
  "five_in_a_row outs \<longleftrightarrow> sublist (replicate 5 True) (map failed outs)"

subsection \<open>An example configuration of the periodic daemon\<close>

text \<open>
  A concrete environment and option map on which the daemon reaches its loop: the three
  keys are present, the duration is ten milliseconds and the nested option string is empty.
\<close>

definition example_env :: periodic_env where
  "example_env =
     \<lparr>CheckForKeys = (\<lambda>m ks. list_all (\<lambda>k. m k \<noteq> None) ks),
      ParseDuration = (\<lambda>s. if s = ''10ms'' then Inr 10000000 else Inl (ErrorString ''invalid duration'')),
      StringToOptMap = (\<lambda>s. if s = [] then Inr Map.empty else Inl (ErrorString ''invalid option string''))\<rparr>"

definition example_args :: "string \<rightharpoonup> string" where
  "example_args = [''duration'' \<mapsto> ''10ms'', ''module'' \<mapsto> ''failing'', ''args'' \<mapsto> []]"

section \<open>The executor (package db)\<close>

subsection \<open>The standard library's contexts and transactions\<close>

text \<open>
  A \<^verbatim>\<open>context.Context\<close> made by \<^verbatim>\<open>context.WithTimeout\<close> is live until its cancel
  function is called or its deadline passes; \<^verbatim>\<open>ctx.Err()\<close> is nil while it is live.
  Calling the cancel function of a context that is already done changes nothing.
\<close>

datatype ctx_state = CtxLive | CtxCanceled | CtxTimedOut

fun ctx_Err :: "ctx_state \<Rightarrow> error option" where
  "ctx_Err CtxLive = None"
| "ctx_Err CtxCanceled = Some ContextCanceled"
| "ctx_Err CtxTimedOut = Some DeadlineExceeded"

fun ctx_cancel :: "ctx_state \<Rightarrow> ctx_state" where
  "ctx_cancel CtxLive = CtxCanceled"
| "ctx_cancel c = c"

text \<open>
  A value passed to the database as a statement argument: the columns of a capture row
  are a timestamp, text, an integer, an integer array or bytes.
\<close>

datatype sqlval =
    VTime int
  | VStr string
  | VInt int
  | VIntArray "int list"
  | VStrArray "string list"
  | VBytes string

text \<open>
  A \<^verbatim>\<open>*sql.Tx\<close> of \<^verbatim>\<open>database/sql\<close>. The transaction is open until \<^verbatim>\<open>Commit\<close> or
  \<^verbatim>\<open>Rollback\<close> finishes it; after that every operation on it fails with
  \<^verbatim>\<open>sql.ErrTxDone\<close>. The database is outside the program, so the transaction carries
  what the driver will answer: \<open>commit_answer\<close> to the commit and \<open>exec_answer\<close> to a
  statement (\<open>None\<close> is success). \<open>executed\<close> lists the statements run in it.
\<close>

datatype tx_status = TxOpen | TxCommitted | TxCommitFailed | TxRolledBack

record sqlTx =
  status :: tx_status
  executed :: "(string \<times> sqlval list) list"
  commit_answer :: "error option"
  exec_answer :: "string \<Rightarrow> error option"

text \<open>
  \<^verbatim>\<open>Tx.Commit\<close> under the transaction's context. When the context of a transaction ends,
  \<^verbatim>\<open>database/sql\<close> rolls the transaction back, so with the context done the transaction is
  finished (rolled back if it was still open) and \<^verbatim>\<open>Commit\<close> returns \<^verbatim>\<open>ErrTxDone\<close>; a
  finished transaction gives \<^verbatim>\<open>ErrTxDone\<close>; an open one is marked finished and the
  driver's answer to the commit is returned.
\<close>

definition Tx_Commit :: "ctx_state \<Rightarrow> sqlTx \<Rightarrow> error option \<times> sqlTx" where
  "Tx_Commit c t =
     (if c \<noteq> CtxLive
      then (Some ErrTxDone, if status t = TxOpen then t\<lparr>status := TxRolledBack\<rparr> else t)
      else if status t \<noteq> TxOpen then (Some ErrTxDone, t)
      else (case commit_answer t of
              None \<Rightarrow> (None, t\<lparr>status := TxCommitted\<rparr>)
            | Some e \<Rightarrow> (Some e, t\<lparr>status := TxCommitFailed\<rparr>)))"

text \<open>\<^verbatim>\<open>Tx.ExecContext\<close>: the context is checked first, then the transaction.\<close>

definition Tx_ExecContext ::
  "ctx_state \<Rightarrow> sqlTx \<Rightarrow> string \<Rightarrow> sqlval list \<Rightarrow> error option \<times> sqlTx"
where
  "Tx_ExecContext c t query args =
     (if c \<noteq> CtxLive then (ctx_Err c, t)
      else if status t \<noteq> TxOpen then (Some ErrTxDone, t)
      else (case exec_answer t query of
              None \<Rightarrow> (None, t\<lparr>executed := executed t @ [(query, args)]\<rparr>)
            | Some e \<Rightarrow> (Some e, t)))"

text \<open>
  A \<^verbatim>\<open>*sql.DB\<close>, the connection pool: the statements run on it outside a transaction,
  the driver's answers, and whether \<^verbatim>\<open>Close\<close> was called on it. \<^verbatim>\<open>ExecContext\<close> tests the
  closed handle first, then the context.
\<close>

record sqlDB =
  db_closed :: bool
  db_executed :: "(string \<times> sqlval list) list"
  db_exec_answer :: "string \<Rightarrow> error option"

definition DB_ExecContext ::
  "ctx_state \<Rightarrow> sqlDB \<Rightarrow> string \<Rightarrow> sqlval list \<Rightarrow> error option \<times> sqlDB"
where
  "DB_ExecContext c d query args =
     (if db_closed d then (Some (ErrorString ''sql: database is closed''), d)
      else if c \<noteq> CtxLive then (ctx_Err c, d)
      else (case db_exec_answer d query of
              None \<Rightarrow> (None, d\<lparr>db_executed := db_executed d @ [(query, args)]\<rparr>)
            | Some e \<Rightarrow> (Some e, d)))"

subsection \<open>ctxTx\<close>

text \<open>
  The struct \<^verbatim>\<open>ctxTx\<close>: \<open>tx = None\<close> is the nil transaction, \<open>ctx\<close> is the state of the
  context, and \<open>cf_calls\<close> counts the calls of the cancel function \<^verbatim>\<open>cf\<close> made so far.
  The field \<open>recorded\<close> is not in the struct of the source: it holds what \<open>SetError\<close>
  below records, and no function of the source reads it.
\<close>

record ctxTx =
  doTx :: bool
  tx :: "sqlTx option"
  db :: sqlDB
  ctx :: ctx_state
  cf_calls :: nat
  recorded :: "error option"

text \<open>
  Modelled from the spec: \<^verbatim>\<open>SetError\<close>, which \<^verbatim>\<open>SessionStream.Cancel\<close> calls on the
  executor, is not among the source files. The spec says that it records an error in the
  executor.
\<close>

definition SetError :: "error \<Rightarrow> ctxTx \<Rightarrow> ctxTx" where
  "SetError e c = c\<lparr>recorded := Some e\<rparr>"

text \<open>The cancel function \<^verbatim>\<open>cf\<close> of the executor's context.\<close>

definition cf :: "ctxTx \<Rightarrow> ctxTx" where
  "cf c = c\<lparr>ctx := ctx_cancel (ctx c), cf_calls := cf_calls c + 1\<rparr>"

text \<open>
  \<^verbatim>\<open>GetNewExecutor\<close> on a live parent context: \<^verbatim>\<open>db.BeginTx\<close> is the database's, so its
  result is a parameter (\<open>Inl\<close> its error). On that error the context is released and
  the function returns nil with the error.
\<close>

definition GetNewExecutor :: "sqlDB \<Rightarrow> bool \<Rightarrow> error + sqlTx \<Rightarrow> error + ctxTx" where
  "GetNewExecutor d dotx begun =
     (if dotx then
        (case begun of
           Inl e \<Rightarrow> Inl e
         | Inr t \<Rightarrow> Inr \<lparr>doTx = dotx, tx = Some t, db = d, ctx = CtxLive, cf_calls = 0,
                         recorded = None\<rparr>)
      else Inr \<lparr>doTx = dotx, tx = None, db = d, ctx = CtxLive, cf_calls = 0, recorded = None\<rparr>)"

text \<open>\<^verbatim>\<open>ctxTx.Exec\<close>: on the transaction when there is one, on the pool otherwise.\<close>

definition Exec :: "ctxTx \<Rightarrow> string \<Rightarrow> sqlval list \<Rightarrow> error option \<times> ctxTx" where
  "Exec c query args =
     (case tx c of
        Some t \<Rightarrow>
          if doTx c then
            (let (r, t') = Tx_ExecContext (ctx c) t query args in (r, c\<lparr>tx := Some t'\<rparr>))
          else (let (r, d') = DB_ExecContext (ctx c) (db c) query args in (r, c\<lparr>db := d'\<rparr>))
      | None \<Rightarrow> (let (r, d') = DB_ExecContext (ctx c) (db c) query args in (r, c\<lparr>db := d'\<rparr>)))"

text \<open>
  \<^verbatim>\<open>ctxTx.Done\<close>: commits when the executor runs a transaction, returns nil otherwise;
  the deferred \<^verbatim>\<open>cf\<close> runs after the commit.
\<close>

definition Done :: "ctxTx \<Rightarrow> error option \<times> ctxTx" where
  "Done ptx =
     (case tx ptx of
        Some t \<Rightarrow>
          if doTx ptx then
            (let (r, t') = Tx_Commit (ctx ptx) t in (r, cf (ptx\<lparr>tx := Some t'\<rparr>)))
          else (None, cf ptx)
      | None \<Rightarrow> (None, cf ptx))"

subsection \<open>Example executors\<close>

text \<open>A database that accepts everything, and a fresh transactional and direct executor on it.\<close>

definition example_db :: sqlDB where
  "example_db = \<lparr>db_closed = False, db_executed = [], db_exec_answer = (\<lambda>q. None)\<rparr>"

definition example_tx :: sqlTx where
  "example_tx = \<lparr>status = TxOpen, executed = [], commit_answer = None, exec_answer = (\<lambda>q. None)\<rparr>"

definition example_txex :: ctxTx where
  "example_txex = \<lparr>doTx = True, tx = Some example_tx, db = example_db, ctx = CtxLive,
                    cf_calls = 0, recorded = None\<rparr>"

definition example_directex :: ctxTx where
  "example_directex = \<lparr>doTx = False, tx = None, db = example_db, ctx = CtxLive,
                        cf_calls = 0, recorded = None\<rparr>"

section \<open>The operation dictionary (package db)\<close>

text \<open>The names of the operations and the dialect tag \<^verbatim>\<open>POSTGRES\<close>.\<close>

definition POSTGRES :: int where
  "POSTGRES = 0"

definition CONNECT_NO_SSL :: string where
  "CONNECT_NO_SSL = ''connectNoSSL''"

definition CONNECT_SSL :: string where
  "CONNECT_SSL = ''connectSSL''"

definition CHECK_SCHEMA :: string where
  "CHECK_SCHEMA = ''checkschema''"

definition SELECT_NODE :: string where
  "SELECT_NODE = ''selectNodeTmpl''"

definition INSERT_NODE :: string where
  "INSERT_NODE = ''insertNodeTmpl''"

definition MAKE_MAIN_TABLE :: string where
  "MAKE_MAIN_TABLE = ''makeMainTableTmpl''"

definition INSERT_MAIN_TABLE :: string where
  "INSERT_MAIN_TABLE = ''insertMainTableTmpl''"

definition MAKE_CAPTURE_TABLE :: string where
  "MAKE_CAPTURE_TABLE = ''makeCaptureTableTmpl''"

definition INSERT_CAPTURE_TABLE :: string where
  "INSERT_CAPTURE_TABLE = ''insertCaptureTableTmpl''"

definition SELECT_TABLE :: string where
  "SELECT_TABLE = ''selectTableTmpl''"

definition MAKE_NODE_TABLE :: string where
  "MAKE_NODE_TABLE = ''makeNodeTableTmpl''"

text \<open>
  The templates of the table \<^verbatim>\<open>dbops\<close>, one per operation for the one dialect. A raw
  string of the source keeps its line breaks (character 10) and tabs (character 9).
\<close>

definition connect_no_ssl_postgres :: string where
  "connect_no_ssl_postgres =
     ''user=%s password=%s dbname=%s host=%s sslmode=disable''"

definition connect_ssl_postgres :: string where
  "connect_ssl_postgres =
     ''user=%s password=%s dbname=%s host=%s''"

definition check_schema_postgres :: string where
  "check_schema_postgres =
     ''SELECT EXISTS ('' @ [CHR 0x0A] @ [CHR 0x09] @ [CHR 0x09] @ ''   SELECT *'' @
     [CHR 0x0A] @ [CHR 0x09] @ [CHR 0x09] @ ''   FROM   information_schema.tables'' @
     [CHR 0x0A] @ [CHR 0x09] @ [CHR 0x09] @ ''   WHERE  table_name = $1'' @ [CHR 0x0A] @
     [CHR 0x09] @ [CHR 0x09] @ '' );''"

definition select_node_postgres :: string where
  "select_node_postgres =
     ''SELECT name, ip, isCollector, tableDumpDurationMinutes, description, coords, address FROM %s;''"

definition insert_node_postgres :: string where
  "insert_node_postgres =
     ''INSERT INTO %s (name, ip, isCollector, tableDumpDurationMinutes, description, coords, address) '' @
     [CHR 0x0A] @ [CHR 0x09] @ [CHR 0x09] @ ''   VALUES ($1, $2, $3, $4, $5, $6, $7)'' @
     [CHR 0x0A] @ [CHR 0x09] @ [CHR 0x09] @
     ''   ON CONFLICT (ip) DO UPDATE SET name=EXCLUDED.name, isCollector=EXCLUDED.isCollector, '' @
     [CHR 0x0A] @ [CHR 0x09] @ [CHR 0x09] @
     ''     tableDumpDurationMinutes=EXCLUDED.tableDumpDurationMinutes,'' @ [CHR 0x0A] @
     [CHR 0x09] @ [CHR 0x09] @
     ''     description=EXCLUDED.description, coords=EXCLUDED.coords, address=EXCLUDED.address;''"

definition make_main_table_postgres :: string where
  "make_main_table_postgres =
     ''CREATE TABLE IF NOT EXISTS %s ('' @ [CHR 0x0A] @ [CHR 0x09] @ [CHR 0x09] @
     ''   dbname varchar PRIMARY KEY,'' @ [CHR 0x0A] @ [CHR 0x09] @
     ''           collector varchar,'' @ [CHR 0x0A] @ [CHR 0x09] @
     ''           dateFrom timestamp,'' @ [CHR 0x0A] @ [CHR 0x09] @
     ''           dateTo timestamp'' @ [CHR 0x0A] @ ''                 );''"

definition insert_main_table_postgres :: string where
  "insert_main_table_postgres =
     ''INSERT INTO %s (dbname, collector, dateFrom, dateTo) VALUES ($1, $2, $3, $4);''"

definition make_capture_table_postgres :: string where
  "make_capture_table_postgres =
     ''CREATE TABLE IF NOT EXISTS %s ('' @ [CHR 0x0A] @ [CHR 0x09] @ [CHR 0x09] @
     ''   update_id varchar PRIMARY KEY, timestamp timestamp, collector_ip inet, peer_ip inet, as_path integer[], next_hop inet, origin_as integer, update_withdraw bool, protomsg bytea);''"

definition insert_capture_table_postgres :: string where
  "insert_capture_table_postgres =
     ''INSERT INTO %s (update_id, timestamp, collector_ip, peer_ip, as_path, next_hop, origin_as, update_withdraw, protomsg)''"

definition select_table_postgres :: string where
  "select_table_postgres =
     ''SELECT dbname, collector, dateFrom, dateTo FROM %s '' @ [CHR 0x0A] @ [CHR 0x09] @
     [CHR 0x09] @ '' WHERE dateFrom <= $1 AND dateTo > $1;''"

definition make_node_table_postgres :: string where
  "make_node_table_postgres =
     ''CREATE TABLE IF NOT EXISTS %s ('' @ [CHR 0x0A] @ [CHR 0x09] @ [CHR 0x09] @
     ''   ip varchar PRIMARY KEY,'' @ [CHR 0x0A] @ [CHR 0x09] @ [CHR 0x09] @
     ''   name varchar, '' @ [CHR 0x0A] @ [CHR 0x09] @ [CHR 0x09] @
     ''   isCollector boolean,'' @ [CHR 0x0A] @ [CHR 0x09] @ [CHR 0x09] @
     ''   tableDumpDurationMinutes integer,'' @ [CHR 0x0A] @ [CHR 0x09] @ [CHR 0x09] @
     ''   description varchar,'' @ [CHR 0x0A] @ [CHR 0x09] @ [CHR 0x09] @
     ''   coords varchar,'' @ [CHR 0x0A] @ [CHR 0x09] @ [CHR 0x09] @ ''   address varchar'' @
     [CHR 0x0A] @ [CHR 0x09] @ ''         );''"

definition dbops :: "string \<rightharpoonup> string list" where
  "dbops = map_of
     [(CONNECT_NO_SSL, [connect_no_ssl_postgres]),
      (CONNECT_SSL, [connect_ssl_postgres]),
      (CHECK_SCHEMA, [check_schema_postgres]),
      (SELECT_NODE, [select_node_postgres]),
      (INSERT_NODE, [insert_node_postgres]),
      (MAKE_MAIN_TABLE, [make_main_table_postgres]),
      (INSERT_MAIN_TABLE, [insert_main_table_postgres]),
      (MAKE_CAPTURE_TABLE, [make_capture_table_postgres]),
      (INSERT_CAPTURE_TABLE, [insert_capture_table_postgres]),
      (SELECT_TABLE, [select_table_postgres]),
      (MAKE_NODE_TABLE, [make_node_table_postgres])]"
text \<open>
  A call either panics (with the runtime's message) or returns. A panic in any goroutine
  ends the program.
\<close>

datatype 'a result = Panic string | Ok 'a

text \<open>
  The struct \<^verbatim>\<open>dbOper\<close>; its field \<^verbatim>\<open>t\<close> is written \<open>oper_t\<close> here.
  \<^verbatim>\<open>getdbop\<close> panics on an unknown operation and on a dialect the operation has no
  template for; indexing the slice with a negative \<^verbatim>\<open>t\<close> panics in the runtime.
\<close>

record dbOper =
  oper_t :: int

definition getdbop :: "dbOper \<Rightarrow> string \<Rightarrow> string result" where
  "getdbop d a =
     (case dbops a of
        None \<Rightarrow> Panic (''nx db op name:'' @ a @ '' requested.'')
      | Some sslice \<Rightarrow>
          if int (length sslice) - 1 < oper_t d
          then Panic (''dbop:'' @ a @ '' for this db type not populated'')
          else if oper_t d < 0 then Panic ''runtime error: index out of range''
          else Ok (sslice ! nat (oper_t d)))"

definition newPostgressDbOper :: dbOper where
  "newPostgressDbOper = \<lparr>oper_t = POSTGRES\<rparr>"

text \<open>
  \<^verbatim>\<open>fmt.Sprintf\<close> on a template whose only verbs are \<^verbatim>\<open>%s\<close>, with string arguments:
  each verb takes the next argument; a verb without an argument and arguments without a
  verb are reported in the output, as \<^verbatim>\<open>fmt\<close> does.
\<close>

fun Sprintf_extra :: "string list \<Rightarrow> string" where
  "Sprintf_extra [] = []"
| "Sprintf_extra [a] = ''string='' @ a"
| "Sprintf_extra (a # b # rest) = ''string='' @ a @ '', '' @ Sprintf_extra (b # rest)"

fun Sprintf_s :: "string \<Rightarrow> string list \<Rightarrow> string" where
  "Sprintf_s [] [] = []"
| "Sprintf_s [] (a # args) = ''%!(EXTRA '' @ Sprintf_extra (a # args) @ '')''"
| "Sprintf_s [c] args = c # Sprintf_s [] args"
| "Sprintf_s (c # d # rest) args =
     (if c = CHR ''%'' \<and> d = CHR ''s'' then
        (case args of
           [] \<Rightarrow> ''%!s(MISSING)'' @ Sprintf_s rest []
         | a # args' \<Rightarrow> a @ Sprintf_s rest args')
      else c # Sprintf_s (d # rest) args)"

section \<open>The write stream (package db)\<close>

subsection \<open>Addresses\<close>

text \<open>
  \<^verbatim>\<open>net.IP\<close> is a byte slice. \<^verbatim>\<open>net.IPv4\<close> builds the 16-byte form of an IPv4 address,
  \<^verbatim>\<open>To4\<close> gives the 4-byte form back (empty when the address is not IPv4), and \<^verbatim>\<open>String\<close>
  writes an IPv4 address in dotted decimal. The text of any other non-empty address is
  the library's and is a parameter here.
\<close>

type_synonym IP = "8 word list"

definition IPv4 :: "8 word \<Rightarrow> 8 word \<Rightarrow> 8 word \<Rightarrow> 8 word \<Rightarrow> IP" where
  "IPv4 a b c d = replicate 10 0 @ [0xff, 0xff, a, b, c, d]"

definition To4 :: "IP \<Rightarrow> IP" where
  "To4 ip =
     (if length ip = 4 then ip
      else if length ip = 16 \<and> take 10 ip = replicate 10 0 \<and> ip ! 10 = 0xff \<and> ip ! 11 = 0xff
      then drop 12 ip
      else [])"

definition IP_String :: "(IP \<Rightarrow> string) \<Rightarrow> IP \<Rightarrow> string" where
  "IP_String other ip =
     (if length ip = 0 then ''<nil>''
      else case To4 ip of
             [a, b, c, d] \<Rightarrow>
               digits (unat a) @ ''.'' @ digits (unat b) @ ''.'' @ digits (unat c) @ ''.'' @
               digits (unat d)
           | _ \<Rightarrow> other ip)"

subsection \<open>Requests\<close>

text \<open>
  A write request is a protocol-buffer message that the stream reads only through the
  getters of package \<^verbatim>\<open>util\<close>, which are not among the source files. The record holds
  what each getter returns on the request, an error as the last component where the
  getter has one. Prefixes are kept as text.
\<close>

record WriteRequest =
  GetTimeColIP :: "int \<times> IP \<times> error option"
  GetPeerIP :: "IP \<times> error option"
  GetAsPath :: "int list"
  GetNextHop :: "IP \<times> error option"
  GetAdvertizedPrefixes :: "string list \<times> error option"
  GetWithdrawnPrefixes :: "string list \<times> error option"
  BgpCapture_String :: string

text \<open>\<^verbatim>\<open>captureMessage\<close>, built by \<^verbatim>\<open>NewCaptureMessage(table, wr)\<close>.\<close>

record captureMessage =
  GetTableName :: string
  GetCapture :: WriteRequest

subsection \<open>Insert buffers\<close>

text \<open>
  \<^verbatim>\<open>util.SqlBuffer\<close> is an interface, and its implementation \<^verbatim>\<open>util.NewInsertBuffer\<close> is
  not among the source files: the stream is modelled for any buffer type \<open>'b\<close> with
  these operations. A buffer works on the executor it was made with, which the stream
  shares with all its buffers, so \<open>Add\<close> and \<open>Flush\<close> take the executor (\<open>None\<close> when the
  pointer is nil) and return it with the buffer. \<^verbatim>\<open>util.PrefixesToPQArray\<close> and the text
  of an address that is not IPv4 are parameters as well.
\<close>

record 'b stream_ops =
  NewInsertBuffer :: "string \<Rightarrow> nat \<Rightarrow> nat \<Rightarrow> bool \<Rightarrow> 'b"
  buf_Add :: "'b \<Rightarrow> sqlval list \<Rightarrow> ctxTx option \<Rightarrow> (error option \<times> 'b \<times> ctxTx option) result"
  buf_Flush :: "'b \<Rightarrow> ctxTx option \<Rightarrow> (error option \<times> 'b \<times> ctxTx option) result"
  PrefixesToPQArray :: "string list \<Rightarrow> sqlval"
  IP_other_String :: "IP \<Rightarrow> string"

subsection \<open>SessionStream\<close>

text \<open>
  The fields of \<^verbatim>\<open>SessionStream\<close> that its methods change or read: \<^verbatim>\<open>closed\<close>, the
  operation dictionary \<^verbatim>\<open>oper\<close>, the executor \<^verbatim>\<open>ex\<close> and the map \<^verbatim>\<open>buffers\<close>. \<open>ex\<close> is
  the \<^verbatim>\<open>*ctxTx\<close> embedded in \<^verbatim>\<open>ss.ex\<close>: \<^verbatim>\<open>NewSessionStream\<close> drops the error of
  \<^verbatim>\<open>GetNewExecutor\<close>, so the pointer is nil (\<open>None\<close>) when the transaction could not be
  begun. The map is an association list; the order of the list stands for the order in
  which \<^verbatim>\<open>range\<close> visits the keys, which Go leaves open.
\<close>

record 'b SessionStream =
  closed :: bool
  oper :: dbOper
  ex :: "ctxTx option"
  buffers :: "(string \<times> 'b) list"

definition BUFFER_SIZE :: nat where
  "BUFFER_SIZE = 40"

text \<open>
  The part of \<^verbatim>\<open>NewSessionStream\<close> that builds the stream's data: the executor is what
  \<^verbatim>\<open>GetNewExecutor\<close> returns for a transaction, nil on its error.
\<close>

definition NewSessionStream :: "sqlDB \<Rightarrow> dbOper \<Rightarrow> error + sqlTx \<Rightarrow> 'b SessionStream" where
  "NewSessionStream d dbo begun =
     \<lparr>closed = False, oper = dbo,
      ex = (case GetNewExecutor d True begun of Inl e \<Rightarrow> None | Inr c \<Rightarrow> Some c),
      buffers = []\<rparr>"

text \<open>
  \<^verbatim>\<open>addToBuffer\<close>, first part: the buffer of the table, made on first use from the
  insert statement of the dictionary.
\<close>

definition get_buffer ::
  "'b stream_ops \<Rightarrow> 'b SessionStream \<Rightarrow> string \<Rightarrow> ('b SessionStream \<times> 'b) result"
where
  "get_buffer ops ss tName =
     (case map_of (buffers ss) tName of
        Some buf \<Rightarrow> Ok (ss, buf)
      | None \<Rightarrow>
          (case getdbop (oper ss) INSERT_CAPTURE_TABLE of
             Panic s \<Rightarrow> Panic s
           | Ok tmpl \<Rightarrow>
               let buf = NewInsertBuffer ops (Sprintf_s tmpl [tName]) BUFFER_SIZE 9 True
               in Ok (ss\<lparr>buffers := AList.update tName buf (buffers ss)\<rparr>, buf)))"

text \<open>
  \<^verbatim>\<open>addToBuffer\<close>, second part: the nine values passed to \<^verbatim>\<open>buf.Add\<close>, computed from the
  request. The errors of \<^verbatim>\<open>GetTimeColIP\<close> and of the two prefix getters are dropped by the
  source; an error of \<^verbatim>\<open>GetNextHop\<close> replaces the next hop by \<^verbatim>\<open>net.IPv4(0, 0, 0, 0)\<close>.
\<close>

definition capture_row :: "'b stream_ops \<Rightarrow> WriteRequest \<Rightarrow> sqlval list" where
  "capture_row ops cap =
     (let (ts, colIP, _) = GetTimeColIP cap;
          (peerIP, _) = GetPeerIP cap;
          asPath = GetAsPath cap;
          (nh, err) = GetNextHop cap;
          nextHop = (if err \<noteq> None then IPv4 0 0 0 0 else nh);
          origin = (if length asPath \<noteq> 0 then asPath ! (length asPath - 1) else 0);
          (advertized, _) = GetAdvertizedPrefixes cap;
          (withdrawn, _) = GetWithdrawnPrefixes cap;
          protoMsg = BgpCapture_String cap;
          advArr = PrefixesToPQArray ops advertized;
          wdrArr = PrefixesToPQArray ops withdrawn
      in [VTime ts, VStr (IP_String (IP_other_String ops) colIP),
          VStr (IP_String (IP_other_String ops) peerIP), VIntArray asPath,
          VStr (IP_String (IP_other_String ops) nextHop), VInt origin, advArr, wdrArr,
          VBytes protoMsg])"

text \<open>
  \<^verbatim>\<open>addToBuffer\<close>: a request whose peer address does not parse is ignored with a nil
  result; otherwise the row goes to the table's buffer and the result is that of \<^verbatim>\<open>Add\<close>.
\<close>

definition addToBuffer ::
  "'b stream_ops \<Rightarrow> 'b SessionStream \<Rightarrow> captureMessage \<Rightarrow> (error option \<times> 'b SessionStream) result"
where
  "addToBuffer ops ss cMsg =
     (let tName = GetTableName cMsg in
      case get_buffer ops ss tName of
        Panic s \<Rightarrow> Panic s
      | Ok (ss1, buf) \<Rightarrow>
          let cap = GetCapture cMsg;
              (peerIP, err) = GetPeerIP cap
          in if err \<noteq> None then Ok (None, ss1)
             else
               (case buf_Add ops buf (capture_row ops cap) (ex ss1) of
                  Panic s \<Rightarrow> Panic s
                | Ok (r, buf', x') \<Rightarrow>
                    Ok (r, ss1\<lparr>buffers := AList.update tName buf' (buffers ss1), ex := x'\<rparr>)))"

text \<open>
  \<^verbatim>\<open>Flush\<close>: every buffer is flushed and its result dropped, then \<^verbatim>\<open>ss.ex.Done()\<close> is
  called and its result dropped, and nil is returned. \<^verbatim>\<open>Done\<close> on a nil executor
  dereferences the nil pointer.
\<close>

fun flush_buffers ::
  "'b stream_ops \<Rightarrow> (string \<times> 'b) list \<Rightarrow> ctxTx option \<Rightarrow> ((string \<times> 'b) list \<times> ctxTx option) result"
where
  "flush_buffers ops [] x = Ok ([], x)"
| "flush_buffers ops ((key, buf) # rest) x =
     (case buf_Flush ops buf x of
        Panic s \<Rightarrow> Panic s
      | Ok (r, buf', x') \<Rightarrow>
          (case flush_buffers ops rest x' of
             Panic s \<Rightarrow> Panic s
           | Ok (rest', x'') \<Rightarrow> Ok ((key, buf') # rest', x'')))"

definition Flush :: "'b stream_ops \<Rightarrow> 'b SessionStream \<Rightarrow> (error option \<times> 'b SessionStream) result" where
  "Flush ops ss =
     (case flush_buffers ops (buffers ss) (ex ss) of
        Panic s \<Rightarrow> Panic s
      | Ok (bufs, x) \<Rightarrow>
          (case x of
             None \<Rightarrow> Panic ''runtime error: invalid memory address or nil pointer dereference''
           | Some c \<Rightarrow>
               let (r, c') = Done c
               in Ok (None, ss\<lparr>buffers := bufs, ex := Some c'\<rparr>)))"

text \<open>
  \<^verbatim>\<open>Cancel\<close>: records the error in the executor through \<open>SetError\<close> and returns nil. On a
  nil executor there is nothing to record it in.
\<close>

definition Cancel :: "'b SessionStream \<Rightarrow> (error option \<times> 'b SessionStream) result" where
  "Cancel ss =
     (case ex ss of
        None \<Rightarrow> Panic ''runtime error: invalid memory address or nil pointer dereference''
      | Some c \<Rightarrow> Ok (None, ss\<lparr>ex := Some (SetError (ErrorString ''Session stream cancelled'') c)\<rparr>))"

subsection \<open>The insert buffer of the specification\<close>

text \<open>
  Modelled from the spec: \<^verbatim>\<open>util.NewInsertBuffer\<close> and the methods of the buffer it
  returns are not among the source files. The spec describes the buffer by an executor,
  an insert statement with \<open>N\<close> parameters per row, a capacity \<open>K\<close> and a flag. \<open>Add\<close> fails
  on a row of the wrong arity and otherwise appends the row; when the row count reaches
  \<open>K\<close> the rows are issued through the executor and the buffer is cleared. \<open>Flush\<close> issues
  a partial batch and does nothing on an empty buffer. After an executor error, \<open>Add\<close>
  returns the stored error. With the flag set the batch is one statement, otherwise one
  statement per row. The spec does not give the text of the values clauses, so the
  statement issued is the prefix, with the values as its arguments.
\<close>

record InsertBuffer =
  ib_stmt :: string
  ib_max :: nat
  ib_arity :: nat
  ib_wrap :: bool
  ib_rows :: "sqlval list list"
  ib_err :: "error option"

fun ib_exec_rows :: "ctxTx \<Rightarrow> string \<Rightarrow> sqlval list list \<Rightarrow> error option \<times> ctxTx" where
  "ib_exec_rows c stmt [] = (None, c)"
| "ib_exec_rows c stmt (row # rows) =
     (case Exec c stmt row of
        (Some e, c') \<Rightarrow> (Some e, c')
      | (None, c') \<Rightarrow> ib_exec_rows c' stmt rows)"

definition ib_issue ::
  "InsertBuffer \<Rightarrow> ctxTx option \<Rightarrow> (error option \<times> InsertBuffer \<times> ctxTx option) result"
where
  "ib_issue b x =
     (case x of
        None \<Rightarrow> Panic ''runtime error: invalid memory address or nil pointer dereference''
      | Some c \<Rightarrow>
          let (r, c') = (if ib_wrap b then Exec c (ib_stmt b) (concat (ib_rows b))
                         else ib_exec_rows c (ib_stmt b) (ib_rows b))
          in Ok (r, b\<lparr>ib_rows := [], ib_err := r\<rparr>, Some c'))"

definition ib_Add ::
  "InsertBuffer \<Rightarrow> sqlval list \<Rightarrow> ctxTx option \<Rightarrow> (error option \<times> InsertBuffer \<times> ctxTx option) result"
where
  "ib_Add b vals x =
     (case ib_err b of
        Some e \<Rightarrow> Ok (Some e, b, x)
      | None \<Rightarrow>
          if length vals \<noteq> ib_arity b then Ok (Some (ErrorString ''ArgumentError''), b, x)
          else
            let b1 = b\<lparr>ib_rows := ib_rows b @ [vals]\<rparr>
            in if ib_max b \<le> length (ib_rows b1) then ib_issue b1 x else Ok (None, b1, x))"

definition ib_Flush ::
  "InsertBuffer \<Rightarrow> ctxTx option \<Rightarrow> (error option \<times> InsertBuffer \<times> ctxTx option) result"
where
  "ib_Flush b x = (if ib_rows b = [] then Ok (None, b, x) else ib_issue b x)"

definition insert_buffer_ops :: "InsertBuffer stream_ops" where
  "insert_buffer_ops =
     \<lparr>NewInsertBuffer = (\<lambda>stmt k n wrap.
        \<lparr>ib_stmt = stmt, ib_max = k, ib_arity = n, ib_wrap = wrap, ib_rows = [], ib_err = None\<rparr>),
      buf_Add = ib_Add,
      buf_Flush = ib_Flush,
      PrefixesToPQArray = VStrArray,
      IP_other_String = (\<lambda>ip. ''?'')\<rparr>"

subsection \<open>Example streams and requests\<close>

text \<open>
  A request from collector 192.0.2.1 and peer 192.0.2.7 with AS-path 64501, 64500 and a
  next hop that does not parse; the same request with an empty AS-path; a stream whose
  transaction was begun, and one for which \<^verbatim>\<open>BeginTx\<close> failed.
\<close>

definition example_request :: WriteRequest where
  "example_request =
     \<lparr>GetTimeColIP = (1357000000, IPv4 192 0 2 1, None),
      GetPeerIP = (IPv4 192 0 2 7, None),
      GetAsPath = [64501, 64500],
      GetNextHop = ([], Some (ErrorString ''no next hop'')),
      GetAdvertizedPrefixes = ([''10.1.0.0/16''], None),
      GetWithdrawnPrefixes = ([], None),
      BgpCapture_String = ''capture''\<rparr>"

definition example_message :: captureMessage where
  "example_message = \<lparr>GetTableName = ''t1'', GetCapture = example_request\<rparr>"

definition example_stream :: "InsertBuffer SessionStream" where
  "example_stream = NewSessionStream example_db newPostgressDbOper (Inr example_tx)"

definition example_nil_stream :: "InsertBuffer SessionStream" where
  "example_nil_stream =
     NewSessionStream example_db newPostgressDbOper (Inl (DriverError ''connection refused''))"

text \<open>
  A stream on a database that refuses both the insert and the commit, holding one row in
  the buffer of table \<open>t1\<close>.
\<close>

definition failing_tx :: sqlTx where
  "failing_tx = \<lparr>status = TxOpen, executed = [],
                  commit_answer = Some (DriverError ''commit refused''),
                  exec_answer = (\<lambda>q. Some (DriverError ''insert refused''))\<rparr>"

definition failing_stream :: "InsertBuffer SessionStream" where
  "failing_stream =
     \<lparr>closed = False, oper = newPostgressDbOper,
      ex = Some \<lparr>doTx = True, tx = Some failing_tx, db = example_db, ctx = CtxLive,
                 cf_calls = 0, recorded = None\<rparr>,
      buffers = [(''t1'', \<lparr>ib_stmt = ''INSERT INTO t1'', ib_max = 40, ib_arity = 1, ib_wrap = True,
                          ib_rows = [[VInt 1]], ib_err = None\<rparr>)]\<rparr>"

text \<open>
  A buffer implementation is total when its \<open>Flush\<close> on an existing executor returns and
  leaves the executor in place.
\<close>

definition flush_total :: "'b stream_ops \<Rightarrow> bool" where
  "flush_total ops \<longleftrightarrow>
     (\<forall>buf c. \<exists>r buf' c'. buf_Flush ops buf (Some c) = Ok (r, buf', Some c'))"

section \<open>The session (package db)\<close>

subsection \<open>Configuration\<close>

text \<open>
  \<^verbatim>\<open>config.NodeConfig\<close>, with the fields \<^verbatim>\<open>nodeConfigFromNode\<close> fills, and what the getters
  of the interface \<^verbatim>\<open>config.SessionConfiger\<close> return on a configuration.
\<close>

record NodeConfig =
  Name :: string
  IP :: string
  IsCollector :: bool
  DumpDurationMinutes :: int
  Description :: string
  Coords :: string
  Location :: string

record SessionConfig =
  GetTypeName :: string
  GetUser :: string
  GetPassword :: string
  GetDatabaseName :: string
  GetHostNames :: "string list"
  GetCertDir :: string
  GetConfiguredNodes :: "string \<rightharpoonup> NodeConfig"

subsection \<open>Worker pool and schema manager\<close>

text \<open>
  Modelled from the spec: \<^verbatim>\<open>util.WorkerPool\<close> is not among the source files. The spec
  describes a bounded counting semaphore: \<open>Add\<close> takes a slot, \<open>Done\<close> releases one, and
  \<open>Close\<close> waits until all outstanding slots are released and then prevents new \<open>Add\<close>s.
  \<open>WorkerPool_Close\<close> is \<open>None\<close> while slots are outstanding: the caller is blocked.
\<close>

record WorkerPool =
  wp_max :: nat
  wp_running :: nat
  wp_closed :: bool

definition NewWorkerPool :: "nat \<Rightarrow> WorkerPool" where
  "NewWorkerPool n = \<lparr>wp_max = n, wp_running = 0, wp_closed = False\<rparr>"

definition WorkerPool_Close :: "WorkerPool \<Rightarrow> WorkerPool option" where
  "WorkerPool_Close p = (if wp_running p = 0 then Some (p\<lparr>wp_closed := True\<rparr>) else None)"

text \<open>
  Modelled from the spec: the schema manager \<^verbatim>\<open>schemaMgr\<close> is not among the source files.
  Of its state only whether \<open>stop\<close> was called is kept.
\<close>

record schemaMgr =
  sm_stopped :: bool

definition newSchemaMgr :: schemaMgr where
  "newSchemaMgr = \<lparr>sm_stopped = False\<rparr>"

definition schemaMgr_stop :: "schemaMgr \<Rightarrow> schemaMgr" where
  "schemaMgr_stop m = m\<lparr>sm_stopped := True\<rparr>"

subsection \<open>Session\<close>

text \<open>
  The struct \<^verbatim>\<open>Session\<close>. The channel \<^verbatim>\<open>cancel\<close> carries no values: its state is whether
  it is closed. The field \<^verbatim>\<open>db\<close> is written \<open>sdb\<close> here, the executor having a field of
  the same name.
\<close>

record Session =
  uuid :: string
  cancel_closed :: bool
  wp :: WorkerPool
  dbo :: dbOper
  sdb :: sqlDB
  schema :: schemaMgr

text \<open>
  What \<^verbatim>\<open>NewSession\<close> calls outside the source files: \<^verbatim>\<open>sql.Open\<close> with the driver name
  and the connection string, \<^verbatim>\<open>makeSchema\<close> and \<^verbatim>\<open>syncNodes\<close> of the schema manager. The
  reply of \<^verbatim>\<open>syncNodes\<close> is asserted to be a \<^verbatim>\<open>nodesReply\<close>; \<open>None\<close> stands for a reply of
  another type, on which the assertion panics.
\<close>

record session_env =
  sql_Open :: "string \<Rightarrow> string \<Rightarrow> error + sqlDB"
  makeSchema :: "sqlDB \<Rightarrow> string \<Rightarrow> string \<Rightarrow> string \<Rightarrow> error option \<times> sqlDB"
  syncNodes :: "sqlDB \<Rightarrow> (string \<rightharpoonup> NodeConfig) \<Rightarrow> (string \<rightharpoonup> NodeConfig) option \<times> sqlDB"

text \<open>
  \<^verbatim>\<open>NewSession\<close>, the choice of the connection template for a postgres configuration:
  the template, or the error returned when neither condition holds.
\<close>

definition postgres_constr ::
  "dbOper \<Rightarrow> string \<Rightarrow> string \<Rightarrow> string \<Rightarrow> string list \<Rightarrow> (error + string) result"
where
  "postgres_constr d u p cd h =
     (if length h = 1 \<and> p \<noteq> [] \<and> cd = [] \<and> u \<noteq> [] then
        (case getdbop d ''connectNoSSL'' of Panic s \<Rightarrow> Panic s | Ok c \<Rightarrow> Ok (Inr c))
      else if cd \<noteq> [] \<and> u \<noteq> [] then
        (case getdbop d ''connectSSL'' of Panic s \<Rightarrow> Panic s | Ok c \<Rightarrow> Ok (Inr c))
      else Ok (Inl (ErrorString ''Postgres sessions require a password and exactly one hostname'')))"

text \<open>
  \<^verbatim>\<open>NewSession\<close> from \<^verbatim>\<open>sql.Open\<close> on: the handle is opened on the connection string, the
  schema manager is made and bootstrapped, the nodes are synchronised, and the session is
  returned. What the function prints is left out.
\<close>

definition open_session ::
  "session_env \<Rightarrow> SessionConfig \<Rightarrow> string \<Rightarrow> nat \<Rightarrow> dbOper \<Rightarrow> string \<Rightarrow> (error + Session) result"
where
  "open_session env conf sid nworkers d constr =
     (case sql_Open env ''postgres'' constr of
        Inl err \<Rightarrow> Ok (Inl (Wrapped ''sql open'' err))
      | Inr handle \<Rightarrow>
          (case makeSchema env handle (GetDatabaseName conf) ''dbs'' ''nodes'' of
             (Some err, handle1) \<Rightarrow> Ok (Inl err)
           | (None, handle1) \<Rightarrow>
               (case syncNodes env handle1 (GetConfiguredNodes conf) of
                  (None, handle2) \<Rightarrow> Panic ''interface conversion: not a nodesReply''
                | (Some nodes, handle2) \<Rightarrow>
                    Ok (Inr \<lparr>uuid = sid, cancel_closed = False, wp = NewWorkerPool nworkers,
                             dbo = d, sdb = handle2, schema = newSchemaMgr\<rparr>))))"

definition NewSession ::
  "session_env \<Rightarrow> SessionConfig \<Rightarrow> string \<Rightarrow> nat \<Rightarrow> (error + Session) result"
where
  "NewSession env conf sid nworkers =
     (let u = GetUser conf;
          p = GetPassword conf;
          d = GetDatabaseName conf;
          h = GetHostNames conf;
          cd = GetCertDir conf
      in if GetTypeName conf = ''postgres'' then
           (case postgres_constr newPostgressDbOper u p cd h of
              Panic s \<Rightarrow> Panic s
            | Ok (Inl err) \<Rightarrow> Ok (Inl err)
            | Ok (Inr constr) \<Rightarrow>
                (case h of
                   [] \<Rightarrow> Panic ''runtime error: index out of range [0] with length 0''
                 | h0 # _ \<Rightarrow>
                     open_session env conf sid nworkers newPostgressDbOper
                       (Sprintf_s constr [u, p, d, h0])))
         else if GetTypeName conf = ''cockroachdb'' then
           Ok (Inl (ErrorString ''cockroach not yet supported''))
         else Ok (Inl (ErrorString ''Unknown session type'')))"

text \<open>
  \<^verbatim>\<open>Session.Close\<close>: closing a closed channel panics (\<open>Crash\<close>); \<^verbatim>\<open>s.wp.Close()\<close> blocks
  while slots are outstanding (\<open>Block\<close>, with the session as it is then); otherwise the
  schema manager is stopped and nil is returned (\<open>Return\<close>).
\<close>

datatype close_outcome = Crash string | Block Session | Return "error option" Session

definition Session_Close :: "Session \<Rightarrow> close_outcome" where
  "Session_Close s =
     (if cancel_closed s then Crash ''close of closed channel''
      else
        let s1 = s\<lparr>cancel_closed := True\<rparr>
        in case WorkerPool_Close (wp s1) of
             None \<Rightarrow> Block s1
           | Some p \<Rightarrow> Return None (s1\<lparr>wp := p, schema := schemaMgr_stop (schema s1)\<rparr>))"

subsection \<open>Example configurations\<close>

text \<open>
  An environment in which every call succeeds; a password configuration, a certificate
  configuration with one host and with none, and a configuration with neither a password
  nor a certificate directory.
\<close>

definition example_session_env :: session_env where
  "example_session_env =
     \<lparr>sql_Open = (\<lambda>driver constr. Inr example_db),
      makeSchema = (\<lambda>handle d m n. (None, handle)),
      syncNodes = (\<lambda>handle nodes. (Some nodes, handle))\<rparr>"

definition example_conf :: SessionConfig where
  "example_conf =
     \<lparr>GetTypeName = ''postgres'', GetUser = ''bgpmon'', GetPassword = ''secret'',
      GetDatabaseName = ''bgpmon'', GetHostNames = [''localhost''], GetCertDir = [],
      GetConfiguredNodes = Map.empty\<rparr>"

definition example_ssl_conf :: SessionConfig where
  "example_ssl_conf = example_conf\<lparr>GetPassword := [], GetCertDir := ''/certs''\<rparr>"

definition example_nohost_conf :: SessionConfig where
  "example_nohost_conf = example_ssl_conf\<lparr>GetHostNames := []\<rparr>"

definition example_bad_conf :: SessionConfig where
  "example_bad_conf = example_conf\<lparr>GetPassword := []\<rparr>"

text \<open>
  An environment whose \<^verbatim>\<open>sql.Open\<close> fails with the connection string it was given as the
  message, and the session that \<open>NewSession\<close> returns on the password configuration.
\<close>

definition echo_session_env :: session_env where
  "echo_session_env = example_session_env\<lparr>sql_Open := (\<lambda>driver constr. Inl (ErrorString constr))\<rparr>"

definition example_session :: Session where
  "example_session =
     \<lparr>uuid = ''s1'', cancel_closed = False, wp = NewWorkerPool 4, dbo = newPostgressDbOper,
      sdb = example_db, schema = newSchemaMgr\<rparr>"

section \<open>The goroutines of a write stream\<close>

text \<open>
  A stream runs two goroutines of its own beside the goroutine of its owner. The
  forwarder, started in \<^verbatim>\<open>NewSessionStream\<close>, waits for the close of the session's cancel
  channel (\<^verbatim>\<open>par\<close>) or of the stream's (\<^verbatim>\<open>child\<close>), sends \<^verbatim>\<open>false\<close> or \<^verbatim>\<open>true\<close> on the channel
  \<^verbatim>\<open>daemon\<close> and closes it. The listener runs \<^verbatim>\<open>listen\<close>. The owner calls \<^verbatim>\<open>Send\<close>,
  \<^verbatim>\<open>Flush\<close>, \<^verbatim>\<open>Cancel\<close> and \<^verbatim>\<open>Close\<close>. All channels are unbuffered: a send and a receive
  happen together, a receive on a closed channel returns at once, a send on a closed
  channel and the close of a closed channel panic.

  Each goroutine is at one of its blocking points:
  \<^item> the forwarder in its \<^verbatim>\<open>select\<close>, at its send of the value, or done;
  \<^item> the listener in its \<^verbatim>\<open>select\<close>, at the send of the reply to a request, at the send
    of the reply \<^verbatim>\<open>Channel closed\<close>, or returned (its deferred call has closed \<^verbatim>\<open>resp\<close>);
  \<^item> the owner between two calls, in \<^verbatim>\<open>Send\<close> at its send on \<^verbatim>\<open>req\<close>, in \<^verbatim>\<open>Send\<close> at its
    receive on \<^verbatim>\<open>resp\<close>, or in \<^verbatim>\<open>Close\<close> between its two closes.
\<close>

datatype fwd_state = FwdSelect | FwdSend bool | FwdDone

datatype lis_state = LisSelect | LisReply "error option" | LisClosing | LisDone

datatype own_state = OwnIdle | OwnSending captureMessage | OwnWaiting | OwnClosing

text \<open>
  The calls the owner makes. \<^verbatim>\<open>Send\<close> asks the schema manager for the table of the
  request; the manager is outside the stream, so the call carries its answer.
\<close>

datatype call = CallSend WriteRequest "error + string" | CallFlush | CallCancel | CallClose

record 'b config =
  stream :: "'b SessionStream"
  parent_closed :: bool
  child_closed :: bool
  req_closed :: bool
  resp_closed :: bool
  forwarder :: fwd_state
  listener :: lis_state
  owner :: own_state
  todo :: "call list"
  results :: "error option list"
  wp_released :: nat
  panicked :: "string option"

text \<open>
  What the scheduler can let happen next: the session closes its cancel channel; the
  forwarder's \<^verbatim>\<open>select\<close> takes one of its cases; the listener's \<^verbatim>\<open>select\<close> takes one of its
  cases; the owner's receive on \<^verbatim>\<open>resp\<close> completes; the owner goes on to its next
  blocking point.
\<close>

datatype action =
  SessionClose | FwdParent | FwdChild | ListenCancel | ListenReq | RespRecv | OwnerStep

text \<open>
  \<^verbatim>\<open>listen\<close>, the case \<^verbatim>\<open>normal := <-cancel\<close>: the stream is marked closed; after a session
  close (\<open>normal\<close> false) the listener goes to send the reply \<^verbatim>\<open>Channel closed\<close>, after a
  close by the owner it returns, which closes \<^verbatim>\<open>resp\<close>.
\<close>

definition listen_cancel :: "bool \<Rightarrow> 'b config \<Rightarrow> 'b config" where
  "listen_cancel normal c =
     (let c1 = c\<lparr>stream := (stream c)\<lparr>closed := True\<rparr>\<rparr>
      in if \<not> normal then c1\<lparr>listener := LisClosing\<rparr>
         else c1\<lparr>listener := LisDone, resp_closed := True\<rparr>)"

text \<open>
  \<^verbatim>\<open>listen\<close>, the case \<^verbatim>\<open>val, ok := <-ss.req\<close>: on a closed channel nothing is done and the
  loop goes round; a request received from a sender is added to its buffer, and the
  listener goes to send the result.
\<close>

definition listen_req :: "'b stream_ops \<Rightarrow> 'b config \<Rightarrow> 'b config option" where
  "listen_req ops c =
     (if req_closed c then Some c
      else case owner c of
             OwnSending val \<Rightarrow>
               (case addToBuffer ops (stream c) val of
                  Panic s \<Rightarrow> Some (c\<lparr>panicked := Some s\<rparr>)
                | Ok (r, ss') \<Rightarrow> Some (c\<lparr>stream := ss', listener := LisReply r, owner := OwnWaiting\<rparr>))
           | _ \<Rightarrow> None)"

text \<open>
  \<^verbatim>\<open>Send\<close> up to its send on \<^verbatim>\<open>req\<close>: an error of \<^verbatim>\<open>GetTimeColIP\<close> or of the schema manager
  is returned; otherwise the message is ready to be sent.
\<close>

definition Send_begin :: "WriteRequest \<Rightarrow> error + string \<Rightarrow> 'b config \<Rightarrow> 'b config" where
  "Send_begin wr answer c =
     (case GetTimeColIP wr of
        (mtime, cip, Some err) \<Rightarrow> c\<lparr>results := results c @ [Some err]\<rparr>
      | (mtime, cip, None) \<Rightarrow>
          (case answer of
             Inl err \<Rightarrow> c\<lparr>results := results c @ [Some err]\<rparr>
           | Inr table \<Rightarrow>
               if req_closed c then c\<lparr>panicked := Some ''send on closed channel''\<rparr>
               else c\<lparr>owner := OwnSending \<lparr>GetTableName = table, GetCapture = wr\<rparr>\<rparr>))"

text \<open>
  \<^verbatim>\<open>Send\<close> at \<^verbatim>\<open>resp, ok := <-ss.resp\<close>: the reply the listener is sending, or the error
  \<^verbatim>\<open>Response channel closed\<close> when the channel is closed.
\<close>

definition Send_receive :: "'b config \<Rightarrow> 'b config option" where
  "Send_receive c =
     (case listener c of
        LisReply r \<Rightarrow> Some (c\<lparr>owner := OwnIdle, results := results c @ [r], listener := LisSelect\<rparr>)
      | LisClosing \<Rightarrow>
          Some (c\<lparr>owner := OwnIdle, results := results c @ [Some (ErrorString ''Channel closed'')],
                 listener := LisDone, resp_closed := True\<rparr>)
      | LisDone \<Rightarrow>
          Some (c\<lparr>owner := OwnIdle,
                 results := results c @ [Some (ErrorString ''Response channel closed'')]\<rparr>)
      | LisSelect \<Rightarrow> None)"

text \<open>The owner's next call. \<^verbatim>\<open>Close\<close> first closes the stream's cancel channel.\<close>

definition owner_call :: "'b stream_ops \<Rightarrow> call \<Rightarrow> 'b config \<Rightarrow> 'b config" where
  "owner_call ops cl c =
     (case cl of
        CallSend wr answer \<Rightarrow> Send_begin wr answer c
      | CallFlush \<Rightarrow>
          (case Flush ops (stream c) of
             Panic s \<Rightarrow> c\<lparr>panicked := Some s\<rparr>
           | Ok (r, ss') \<Rightarrow> c\<lparr>stream := ss', results := results c @ [r]\<rparr>)
      | CallCancel \<Rightarrow>
          (case Cancel (stream c) of
             Panic s \<Rightarrow> c\<lparr>panicked := Some s\<rparr>
           | Ok (r, ss') \<Rightarrow> c\<lparr>stream := ss', results := results c @ [r]\<rparr>)
      | CallClose \<Rightarrow>
          if child_closed c then c\<lparr>panicked := Some ''close of closed channel''\<rparr>
          else c\<lparr>child_closed := True, owner := OwnClosing\<rparr>)"

text \<open>\<^verbatim>\<open>Close\<close> after its first close: \<^verbatim>\<open>close(ss.req)\<close>, \<^verbatim>\<open>ss.wp.Done()\<close>, and nil is returned.\<close>

definition Close_req :: "'b config \<Rightarrow> 'b config" where
  "Close_req c =
     (if req_closed c then c\<lparr>panicked := Some ''close of closed channel''\<rparr>
      else c\<lparr>req_closed := True, wp_released := wp_released c + 1, owner := OwnIdle,
             results := results c @ [None]\<rparr>)"

text \<open>
  One step of the system: \<open>None\<close> when the action cannot happen in the configuration.
  Nothing happens after a panic.
\<close>

definition step :: "'b stream_ops \<Rightarrow> action \<Rightarrow> 'b config \<Rightarrow> 'b config option" where
  "step ops a c =
     (if panicked c \<noteq> None then None
      else case a of
        SessionClose \<Rightarrow> if parent_closed c then None else Some (c\<lparr>parent_closed := True\<rparr>)
      | FwdParent \<Rightarrow>
          if forwarder c = FwdSelect \<and> parent_closed c then Some (c\<lparr>forwarder := FwdSend False\<rparr>)
          else None
      | FwdChild \<Rightarrow>
          if forwarder c = FwdSelect \<and> child_closed c then Some (c\<lparr>forwarder := FwdSend True\<rparr>)
          else None
      | ListenCancel \<Rightarrow>
          (case forwarder c of
             FwdSend normal \<Rightarrow>
               if listener c = LisSelect then Some (listen_cancel normal (c\<lparr>forwarder := FwdDone\<rparr>))
               else None
           | _ \<Rightarrow> None)
      | ListenReq \<Rightarrow> if listener c = LisSelect then listen_req ops c else None
      | RespRecv \<Rightarrow> if owner c = OwnWaiting then Send_receive c else None
      | OwnerStep \<Rightarrow>
          (case owner c of
             OwnIdle \<Rightarrow>
               (case todo c of
                  [] \<Rightarrow> None
                | cl # rest \<Rightarrow> Some (owner_call ops cl (c\<lparr>todo := rest\<rparr>)))
           | OwnClosing \<Rightarrow> Some (Close_req c)
           | _ \<Rightarrow> None))"

text \<open>A schedule is a list of actions; it runs when each action can happen in its turn.\<close>

fun run :: "'b stream_ops \<Rightarrow> action list \<Rightarrow> 'b config \<Rightarrow> 'b config option" where
  "run ops [] c = Some c"
| "run ops (a # as) c = (case step ops a c of None \<Rightarrow> None | Some c' \<Rightarrow> run ops as c')"

text \<open>A configuration is stuck when no action can happen in it.\<close>

definition stuck :: "'b stream_ops \<Rightarrow> 'b config \<Rightarrow> bool" where
  "stuck ops c \<longleftrightarrow>
     list_all (\<lambda>a. step ops a c = None)
       [SessionClose, FwdParent, FwdChild, ListenCancel, ListenReq, RespRecv, OwnerStep]"

text \<open>
  The configuration right after \<^verbatim>\<open>NewSessionStream\<close>, with the calls the owner is going to
  make.
\<close>

definition new_config :: "'b SessionStream \<Rightarrow> call list \<Rightarrow> 'b config" where
  "new_config ss calls =
     \<lparr>stream = ss, parent_closed = False, child_closed = False, req_closed = False,
      resp_closed = False, forwarder = FwdSelect, listener = LisSelect, owner = OwnIdle,
      todo = calls, results = [], wp_released = 0, panicked = None\<rparr>"

text \<open>The status of an executor's transaction, when it has one, and of the stream's.\<close>

definition ex_status :: "ctxTx option \<Rightarrow> tx_status option" where
  "ex_status x = (case x of None \<Rightarrow> None | Some e \<Rightarrow> map_option status (tx e))"

definition tx_status_of :: "'b config \<Rightarrow> tx_status option" where
  "tx_status_of c = ex_status (ex (stream c))"

text \<open>
  The owner is at its receive on \<^verbatim>\<open>resp\<close> exactly when the listener is at the send of the
  reply to a request.
\<close>

definition in_step :: "'b config \<Rightarrow> bool" where
  "in_step c \<longleftrightarrow>
     (owner c = OwnWaiting) = (case listener c of LisReply r \<Rightarrow> True | _ \<Rightarrow> False)"

section \<open>Properties\<close>

subsection \<open>Hijack task\<close>

lemma isEvent_path_iff: "isEvent_path as path \<longleftrightarrow> as \<in> set path"
  by (induction path) auto

lemma isEvent_origins_iff: "isEvent_origins origins path \<longleftrightarrow> set path \<inter> set origins = {}"
  by (induction origins) (auto simp: isEvent_path_iff)

lemma hijack_scan_counts:
  "hijack_scan ent caps (m, e) =
     (m + length caps, e + length (filter (isEvent ent) caps))"
  by (induction caps arbitrary: m e) auto

text \<open>
  Claim C4. A capture is an event exactly when no element of its AS-path is one of the
  entity's owned origins, and the task's event counter is the number of such captures
  among those it read.
\<close>

theorem isEvent_no_owned_origin:
  "(isEvent ent cap \<longleftrightarrow> set (ASPath cap) \<inter> set (OwnedOrigins ent) = {}) \<and>
   hijack_scan ent caps (0, 0) =
     (length caps, length (filter (\<lambda>c. set (ASPath c) \<inter> set (OwnedOrigins ent) = {}) caps))"
proof
  show ev: "isEvent ent cap \<longleftrightarrow> set (ASPath cap) \<inter> set (OwnedOrigins ent) = {}" for cap
    by (simp add: isEvent_def isEvent_origins_iff)
  have "filter (isEvent ent) caps =
        filter (\<lambda>c. set (ASPath c) \<inter> set (OwnedOrigins ent) = {}) caps"
    by (rule filter_cong) (simp_all add: ev)
  then show "hijack_scan ent caps (0, 0) =
     (length caps, length (filter (\<lambda>c. set (ASPath c) \<inter> set (OwnedOrigins ent) = {}) caps))"
    by (simp add: hijack_scan_counts)
qed

subsection \<open>Periodic daemon\<close>

text \<open>Running the loop on two batches of events is running it on the first, then on the second.\<close>

lemma periodic_loop_append:
  "periodic_loop m a st (evs1 @ evs2) =
     (case periodic_loop m a st evs1 of Waits st' \<Rightarrow> periodic_loop m a st' evs2 | r \<Rightarrow> r)"
proof (induction evs1 arbitrary: st)
  case Nil
  show ?case by simp
next
  case (Cons ev evs1)
  show ?case
  proof (cases ev)
    case CancelEv
    then show ?thesis by simp
  next
    case (TickEv err)
    then show ?thesis using Cons.IH by (simp add: Let_def)
  qed
qed

lemma five_prefix: "sublist (replicate 5 True) (replicate 4 True @ True # fs)"
proof -
  have "replicate 4 True @ True # fs = replicate 5 True @ fs"
    by (simp add: eval_nat_numeral)
  then show ?thesis by (simp only: sublist_append_rightI)
qed

lemma periodic_loop_waits:
  assumes "0 \<le> errC st" and "errC st < 5"
    and "\<not> sublist (replicate 5 True) (replicate (nat (errC st)) True @ map failed outs)"
  shows "\<exists>st'. periodic_loop m a st (map TickEv outs) = Waits st' \<and>
           finishes st' = finishes st \<and>
           length (invoked st') = length (invoked st) + length outs \<and>
           0 \<le> errC st' \<and> errC st' < 5 \<and>
           (outs \<noteq> [] \<and> \<not> failed (last outs) \<longrightarrow> errC st' = 0) \<and>
           (outs = [] \<longrightarrow> st' = st)"
  using assms
proof (induction outs arbitrary: st)
  case Nil
  then show ?case by simp
next
  case (Cons r outs)
  show ?case
  proof (cases "failed r")
    case True
    have lt: "errC st + 1 < 5"
    proof (rule ccontr)
      assume "\<not> errC st + 1 < 5"
      with Cons.prems have "nat (errC st) = 4" by simp
      with Cons.prems(3) True show False using five_prefix [of "map failed outs"] by simp
    qed
    let ?st = "st\<lparr>invoked := invoked st @ [(m, ''periodic-'' @ m @ fmt_d (runC st), a)],
                  errC := errC st + 1, runC := runC st + 1\<rparr>"
    have n: "nat (errC st + 1) = Suc (nat (errC st))" using Cons.prems(1) by simp
    have "replicate (nat (errC ?st)) True @ map failed outs =
          replicate (nat (errC st)) True @ map failed (r # outs)"
      using True by (simp add: n replicate_app_Cons_same)
    with Cons.prems(3)
    have "\<not> sublist (replicate 5 True) (replicate (nat (errC ?st)) True @ map failed outs)"
      by simp
    from Cons.IH [OF _ _ this] Cons.prems(1) lt
    obtain st' where "periodic_loop m a ?st (map TickEv outs) = Waits st'"
      "finishes st' = finishes ?st" "length (invoked st') = length (invoked ?st) + length outs"
      "0 \<le> errC st'" "errC st' < 5" "outs \<noteq> [] \<and> \<not> failed (last outs) \<longrightarrow> errC st' = 0"
      "outs = [] \<longrightarrow> st' = ?st"
      by auto
    with True lt show ?thesis
      by (auto simp: Let_def failed_def)
  next
    case False
    let ?st = "st\<lparr>invoked := invoked st @ [(m, ''periodic-'' @ m @ fmt_d (runC st), a)],
                  errC := 0, runC := runC st + 1\<rparr>"
    have "\<not> sublist (replicate 5 True) (map failed outs)"
    proof
      assume "sublist (replicate 5 True) (map failed outs)"
      then have "sublist (replicate 5 True)
                   ((replicate (nat (errC st)) True @ [failed r]) @ map failed outs)"
        by (simp only: sublist_append [where ys = "replicate (nat (errC st)) True @ [failed r]"] simp_thms)
      with Cons.prems(3) show False by simp
    qed
    then have "\<not> sublist (replicate 5 True) (replicate (nat (errC ?st)) True @ map failed outs)"
      by simp
    from Cons.IH [OF _ _ this]
    obtain st' where "periodic_loop m a ?st (map TickEv outs) = Waits st'"
      "finishes st' = finishes ?st" "length (invoked st') = length (invoked ?st) + length outs"
      "0 \<le> errC st'" "errC st' < 5" "outs \<noteq> [] \<and> \<not> failed (last outs) \<longrightarrow> errC st' = 0"
      "outs = [] \<longrightarrow> st' = ?st"
      by auto
    with False show ?thesis
      by (auto simp: Let_def failed_def)
  qed
qed

lemma periodic_loop_five:
  assumes "errC st = 0" and "length fs = 5" and "list_all failed fs"
  shows "\<exists>st'. periodic_loop m a st (map TickEv fs @ rest) = Returns st' \<and>
           finishes st' = finishes st + 1 \<and>
           length (invoked st') = length (invoked st) + 5"
proof -
  from assms(2) obtain r1 r2 r3 r4 r5 where fs: "fs = [r1, r2, r3, r4, r5]"
    by (auto simp: eval_nat_numeral length_Suc_conv)
  with assms(1,3) show ?thesis
    by (simp add: failed_def Let_def)
qed


text \<open>
  Claim C3. With valid options the daemon reaches its loop. Let \<open>outs\<close> be the results of
  the ticks so far, with no five failures in a row. Then the daemon is still waiting, has
  not called its finish callback, and has invoked the module once per tick; after a
  successful tick its failure counter is zero. If moreover \<open>outs\<close> is empty or ends with a
  success, five further failing ticks \<open>fs\<close> make the daemon call the finish callback once
  and return right after the fifth of them: it has made \<open>length outs + 5\<close> invocations and
  none for the events \<open>rest\<close> that follow.
\<close>

theorem periodic_five_consecutive_failures:
  assumes "valid_options env args"
  shows "(\<not> five_in_a_row outs \<and> (outs = [] \<or> \<not> failed (last outs)) \<and>
          length fs = 5 \<and> list_all failed fs \<longrightarrow>
            (\<exists>st. periodic_Run env args (map TickEv (outs @ fs) @ rest) = Returns st \<and>
                  finishes st = 1 \<and> length (invoked st) = length outs + 5)) \<and>
         (\<not> five_in_a_row outs \<longrightarrow>
            (\<exists>st. periodic_Run env args (map TickEv outs) = Waits st \<and>
                  finishes st = 0 \<and> length (invoked st) = length outs \<and>
                  (outs \<noteq> [] \<and> \<not> failed (last outs) \<longrightarrow> errC st = 0)))"
proof -
  from assms obtain dur argmap where
    keys: "CheckForKeys env args [''duration'', ''module'', ''args'']" and
    dur: "ParseDuration env (map_index args ''duration'') = Inr dur" "0 < dur" and
    argmap: "StringToOptMap env (map_index args ''args'') = Inr argmap"
    by (auto simp: valid_options_def)
  define m where "m = map_index args ''module''"
  have run: "periodic_Run env args evs = periodic_loop m argmap periodic_init evs" for evs
    using keys dur argmap by (simp add: periodic_Run_def m_def)
  have waits: "\<exists>st. periodic_loop m argmap periodic_init (map TickEv outs) = Waits st \<and>
                 finishes st = 0 \<and> length (invoked st) = length outs \<and>
                 (outs \<noteq> [] \<and> \<not> failed (last outs) \<longrightarrow> errC st = 0) \<and>
                 (outs = [] \<longrightarrow> st = periodic_init)"
    if "\<not> five_in_a_row outs"
    using periodic_loop_waits [of periodic_init outs m argmap] that
    by (auto simp: five_in_a_row_def periodic_init_def)
  have returns: "\<exists>st. periodic_loop m argmap periodic_init (map TickEv (outs @ fs) @ rest) = Returns st \<and>
                   finishes st = 1 \<and> length (invoked st) = length outs + 5"
    if no: "\<not> five_in_a_row outs" and lst: "outs = [] \<or> \<not> failed (last outs)"
      and fs: "length fs = 5" "list_all failed fs"
  proof -
    from waits [OF no] obtain st where
      st: "periodic_loop m argmap periodic_init (map TickEv outs) = Waits st"
        "finishes st = 0" "length (invoked st) = length outs"
        "outs \<noteq> [] \<and> \<not> failed (last outs) \<longrightarrow> errC st = 0" "outs = [] \<longrightarrow> st = periodic_init"
      by blast
    from lst st(4,5) have zero: "errC st = 0"
      by (auto simp: periodic_init_def)
    from periodic_loop_five [OF zero fs, of m argmap rest] obtain st' where
      "periodic_loop m argmap st (map TickEv fs @ rest) = Returns st'"
      "finishes st' = finishes st + 1" "length (invoked st') = length (invoked st) + 5"
      by blast
    with st show ?thesis
      by (simp add: periodic_loop_append)
  qed
  show ?thesis
    using waits returns by (simp only: run) blast
qed

theorem periodic_five_consecutive_failures_witness:
  "valid_options example_env example_args \<and>
   \<not> five_in_a_row [Some (ErrorString ''down''), None] \<and>
   (\<exists>st. periodic_Run example_env example_args
           (map TickEv ([Some (ErrorString ''down''), None] @ replicate 5 (Some (ErrorString ''down'')))
              @ [TickEv None]) = Returns st \<and>
         finishes st = 1 \<and> length (invoked st) = 7) \<and>
   (\<exists>st. periodic_Run example_env example_args (map TickEv [Some (ErrorString ''down''), None]) = Waits st \<and>
         finishes st = 0 \<and> length (invoked st) = 2 \<and> errC st = 0)"
proof -
  have v: "valid_options example_env example_args"
    by (simp add: valid_options_def example_env_def example_args_def map_index_def)
  have n: "\<not> five_in_a_row [Some (ErrorString ''down''), None]"
    by (simp add: five_in_a_row_def failed_def sublist_Cons_right eval_nat_numeral)
  have f: "length (replicate 5 (Some (ErrorString ''down''))) = 5 \<and>
           list_all failed (replicate 5 (Some (ErrorString ''down'')))"
    by (simp add: failed_def eval_nat_numeral)
  show ?thesis
    using v n f
      periodic_five_consecutive_failures [OF v, of "[Some (ErrorString ''down''), None]"
        "replicate 5 (Some (ErrorString ''down''))" "[TickEv None]"]
    by (auto simp: failed_def)
qed

subsection \<open>Executor\<close>

lemma Done_direct: "\<not> (doTx c \<and> tx c \<noteq> None) \<Longrightarrow> Done c = (None, cf c)"
  by (auto simp: Done_def split: option.splits)

lemma Done_tx:
  "doTx c \<Longrightarrow> tx c = Some t \<Longrightarrow>
     Done c = (fst (Tx_Commit (ctx c) t), cf (c\<lparr>tx := Some (snd (Tx_Commit (ctx c) t))\<rparr>))"
  by (simp add: Done_def split_beta)

lemma ctx_cancel_not_live: "ctx_cancel s \<noteq> CtxLive"
  by (cases s) simp_all

lemma Tx_Commit_done_ctx: "c \<noteq> CtxLive \<Longrightarrow> fst (Tx_Commit c t) \<noteq> None"
  by (cases c) (simp_all add: Tx_Commit_def)

lemma Tx_Commit_finishes: "status (snd (Tx_Commit CtxLive t)) \<noteq> TxOpen"
  by (simp add: Tx_Commit_def split: option.splits)

text \<open>
  Claim C5, as the code has it. A direct executor (no transaction to commit) returns nil
  from \<open>Done\<close> on the first call and on the second. A transactional executor does not:
  its second \<open>Done\<close> commits the finished transaction again and returns that commit's
  error, which is \<open>ErrTxDone\<close> when the context was live at the first call.
\<close>

theorem Done_second_call:
  "(\<not> (doTx c \<and> tx c \<noteq> None) \<longrightarrow>
      fst (Done c) = None \<and> fst (Done (snd (Done c))) = None) \<and>
   (doTx c \<and> tx c \<noteq> None \<longrightarrow> fst (Done (snd (Done c))) \<noteq> None) \<and>
   (doTx c \<and> tx c \<noteq> None \<and> ctx c = CtxLive \<longrightarrow>
      fst (Done (snd (Done c))) = Some ErrTxDone)"
proof (intro conjI impI)
  assume d: "\<not> (doTx c \<and> tx c \<noteq> None)"
  then have "\<not> (doTx (cf c) \<and> tx (cf c) \<noteq> None)"
    by (simp add: cf_def)
  with d show "fst (Done c) = None" and "fst (Done (snd (Done c))) = None"
    by (simp_all add: Done_direct)
next
  assume "doTx c \<and> tx c \<noteq> None"
  then obtain t where t: "doTx c" "tx c = Some t" by auto
  define c' where "c' = snd (Done c)"
  have c': "doTx c'" "tx c' = Some (snd (Tx_Commit (ctx c) t))" "ctx c' = ctx_cancel (ctx c)"
    using t by (simp_all add: c'_def Done_tx cf_def)
  have "fst (Done c') = fst (Tx_Commit (ctx_cancel (ctx c)) (snd (Tx_Commit (ctx c) t)))"
    using c' by (simp add: Done_tx)
  then show "fst (Done (snd (Done c))) \<noteq> None"
    using Tx_Commit_done_ctx [OF ctx_cancel_not_live] by (simp add: c'_def)
next
  assume "doTx c \<and> tx c \<noteq> None \<and> ctx c = CtxLive"
  then obtain t where t: "doTx c" "tx c = Some t" "ctx c = CtxLive" by auto
  define c' where "c' = snd (Done c)"
  have c': "doTx c'" "tx c' = Some (snd (Tx_Commit CtxLive t))" "ctx c' = CtxCanceled"
    using t by (simp_all add: c'_def Done_tx cf_def)
  have "fst (Done c') = fst (Tx_Commit CtxCanceled (snd (Tx_Commit CtxLive t)))"
    using c' by (simp add: Done_tx)
  then show "fst (Done (snd (Done c))) = Some ErrTxDone"
    using Tx_Commit_finishes [of t] by (simp add: c'_def Tx_Commit_def)
qed

theorem Done_second_call_witness:
  "fst (Done example_directex) = None \<and>
   fst (Done (snd (Done example_directex))) = None \<and>
   fst (Done example_txex) = None \<and>
   fst (Done (snd (Done example_txex))) = Some ErrTxDone"
  using Done_second_call [of example_directex] Done_second_call [of example_txex]
  by (simp add: example_directex_def example_txex_def example_tx_def Done_def Tx_Commit_def cf_def)

text \<open>
  The claim as stated fails for the transactional executor: the first \<open>Done\<close> commits and
  returns nil, the second returns an error.
\<close>

theorem Done_not_idempotent:
  "fst (Done example_txex) = None \<and>
   map_option status (tx (snd (Done example_txex))) = Some TxCommitted \<and>
   fst (Done (snd (Done example_txex))) \<noteq> None"
  by (simp add: example_txex_def example_tx_def Done_def Tx_Commit_def cf_def)

subsection \<open>Write stream: the row of a capture\<close>

lemma capture_row_length: "length (capture_row ops cap) = 9"
  by (simp add: capture_row_def Let_def split_beta)

lemma IP_String_zero: "IP_String other (IPv4 0 0 0 0) = ''0.0.0.0''"
  by (simp add: IP_String_def IPv4_def To4_def digits.simps eval_nat_numeral)

lemma capture_row_origin:
  "capture_row ops cap ! 5 = VInt (if GetAsPath cap = [] then 0 else last (GetAsPath cap))"
  by (simp add: capture_row_def Let_def split_beta last_conv_nth eval_nat_numeral)

lemma capture_row_nextHop:
  "snd (GetNextHop cap) \<noteq> None \<Longrightarrow> capture_row ops cap ! 4 = VStr ''0.0.0.0''"
  by (simp add: capture_row_def Let_def split_beta IP_String_zero eval_nat_numeral)

text \<open>
  Claim C8. A capture is accepted when its peer address parses. For such a capture
  \<open>addToBuffer\<close> calls \<open>Add\<close> on the table's buffer with the nine values of
  \<open>capture_row\<close>: the sixth is the last element of the AS-path, or 0 when the path is
  empty, and the fifth is the text 0.0.0.0 when the next hop failed to parse.
\<close>

theorem addToBuffer_row:
  assumes "snd (GetPeerIP (GetCapture cMsg)) = None"
  shows "addToBuffer ops ss cMsg =
           (case get_buffer ops ss (GetTableName cMsg) of
              Panic s \<Rightarrow> Panic s
            | Ok (ss1, buf) \<Rightarrow>
                (case buf_Add ops buf (capture_row ops (GetCapture cMsg)) (ex ss1) of
                   Panic s \<Rightarrow> Panic s
                 | Ok (r, buf', x') \<Rightarrow>
                     Ok (r, ss1\<lparr>buffers := AList.update (GetTableName cMsg) buf' (buffers ss1),
                                ex := x'\<rparr>))) \<and>
         length (capture_row ops (GetCapture cMsg)) = 9 \<and>
         capture_row ops (GetCapture cMsg) ! 5 =
           VInt (if GetAsPath (GetCapture cMsg) = [] then 0 else last (GetAsPath (GetCapture cMsg))) \<and>
         (snd (GetNextHop (GetCapture cMsg)) \<noteq> None \<longrightarrow>
            capture_row ops (GetCapture cMsg) ! 4 = VStr ''0.0.0.0'')"
proof -
  have "addToBuffer ops ss cMsg =
           (case get_buffer ops ss (GetTableName cMsg) of
              Panic s \<Rightarrow> Panic s
            | Ok (ss1, buf) \<Rightarrow>
                (case buf_Add ops buf (capture_row ops (GetCapture cMsg)) (ex ss1) of
                   Panic s \<Rightarrow> Panic s
                 | Ok (r, buf', x') \<Rightarrow>
                     Ok (r, ss1\<lparr>buffers := AList.update (GetTableName cMsg) buf' (buffers ss1),
                                ex := x'\<rparr>)))"
    using assms
    by (simp add: addToBuffer_def Let_def split_beta split: result.splits)
  then show ?thesis
    by (simp add: capture_row_length capture_row_origin capture_row_nextHop)
qed

theorem addToBuffer_row_witness:
  "snd (GetPeerIP (GetCapture example_message)) = None \<and>
   capture_row insert_buffer_ops (GetCapture example_message) ! 5 = VInt 64500 \<and>
   capture_row insert_buffer_ops (GetCapture example_message) ! 4 = VStr ''0.0.0.0'' \<and>
   (case addToBuffer insert_buffer_ops example_stream example_message of
      Panic s \<Rightarrow> False
    | Ok (r, ss') \<Rightarrow>
        r = None \<and>
        map_option ib_rows (map_of (buffers ss') ''t1'') =
          Some [[VTime 1357000000, VStr ''192.0.2.1'', VStr ''192.0.2.7'',
                 VIntArray [64501, 64500], VStr ''0.0.0.0'', VInt 64500,
                 VStrArray [''10.1.0.0/16''], VStrArray [], VBytes ''capture'']])"
proof -
  have peer: "snd (GetPeerIP (GetCapture example_message)) = None"
    by (simp add: example_message_def example_request_def)
  have path: "GetAsPath (GetCapture example_message) = [64501, 64500]"
    and hop: "snd (GetNextHop (GetCapture example_message)) \<noteq> None"
    by (simp_all add: example_message_def example_request_def)
  note row = addToBuffer_row [OF peer, of insert_buffer_ops example_stream]
  have origin: "capture_row insert_buffer_ops (GetCapture example_message) ! 5 = VInt 64500"
    using row path by simp
  have nextHop: "capture_row insert_buffer_ops (GetCapture example_message) ! 4 = VStr ''0.0.0.0''"
    using row hop by simp
  have run: "(case addToBuffer insert_buffer_ops example_stream example_message of
      Panic s \<Rightarrow> False
    | Ok (r, ss') \<Rightarrow>
        r = None \<and>
        map_option ib_rows (map_of (buffers ss') ''t1'') =
          Some [[VTime 1357000000, VStr ''192.0.2.1'', VStr ''192.0.2.7'',
                 VIntArray [64501, 64500], VStr ''0.0.0.0'', VInt 64500,
                 VStrArray [''10.1.0.0/16''], VStrArray [], VBytes ''capture'']])"
    by code_simp
  from peer origin nextHop run show ?thesis by (intro conjI)
qed

subsection \<open>Write stream: Flush and Cancel\<close>

lemma flush_buffers_total:
  assumes "flush_total ops"
  shows "\<exists>bufs c'. flush_buffers ops bs (Some c) = Ok (bufs, Some c')"
proof (induction bs arbitrary: c)
  case Nil
  show ?case by simp
next
  case (Cons kb bs)
  obtain key buf where kb: "kb = (key, buf)" by (cases kb)
  from assms obtain r buf' c1 where "buf_Flush ops buf (Some c) = Ok (r, buf', Some c1)"
    unfolding flush_total_def by blast
  moreover from Cons.IH [of c1] obtain bufs c2 where
    "flush_buffers ops bs (Some c1) = Ok (bufs, Some c2)" by blast
  ultimately show ?case by (simp add: kb)
qed

text \<open>
  On a stream that has its executor, with buffers whose \<open>Flush\<close> returns, \<open>Flush\<close> returns
  nil: what the buffers' \<open>Flush\<close> and the executor's \<open>Done\<close> return is dropped.
\<close>

theorem Flush_returns_nil:
  assumes "flush_total ops" and "ex ss = Some c"
  shows "\<exists>ss'. Flush ops ss = Ok (None, ss')"
proof -
  from flush_buffers_total [OF assms(1), of "buffers ss" c] obtain bufs c' where
    "flush_buffers ops (buffers ss) (Some c) = Ok (bufs, Some c')" by blast
  with assms(2) show ?thesis
    by (simp add: Flush_def split_beta)
qed

lemma insert_buffer_flush_total: "flush_total insert_buffer_ops"
  by (simp add: flush_total_def insert_buffer_ops_def ib_Flush_def ib_issue_def split_beta)

theorem Flush_returns_nil_witness:
  "flush_total insert_buffer_ops \<and>
   (\<exists>ss'. Flush insert_buffer_ops failing_stream = Ok (None, ss')) \<and>
   (case Flush insert_buffer_ops failing_stream of
      Panic s \<Rightarrow> False
    | Ok (r, ss') \<Rightarrow>
        r = None \<and>
        map_option ib_err (map_of (buffers ss') ''t1'') = Some (Some (DriverError ''insert refused'')) \<and>
        map_option (\<lambda>c. map_option status (tx c)) (ex ss') = Some (Some TxCommitFailed))"
proof -
  have e: "ex failing_stream = Some \<lparr>doTx = True, tx = Some failing_tx, db = example_db, ctx = CtxLive,
                 cf_calls = 0, recorded = None\<rparr>"
    by (simp add: failing_stream_def)
  have "(case Flush insert_buffer_ops failing_stream of
      Panic s \<Rightarrow> False
    | Ok (r, ss') \<Rightarrow>
        r = None \<and>
        map_option ib_err (map_of (buffers ss') ''t1'') = Some (Some (DriverError ''insert refused'')) \<and>
        map_option (\<lambda>c. map_option status (tx c)) (ex ss') = Some (Some TxCommitFailed))"
    by code_simp
  with insert_buffer_flush_total Flush_returns_nil [OF insert_buffer_flush_total e]
  show ?thesis by (intro conjI)
qed

text \<open>
  Claim C9 at a stream made while the transaction could not be begun: the executor is
  nil, and \<open>Flush\<close> panics in \<open>Done\<close> instead of returning nil.
\<close>

theorem Flush_nil_executor_panics:
  "Flush ops (NewSessionStream d dop (Inl e)) =
     Panic ''runtime error: invalid memory address or nil pointer dereference''"
  by (simp add: Flush_def NewSessionStream_def GetNewExecutor_def)

text \<open>
  Claim C2 on the code: \<open>Done\<close> does the same with and without a recorded error, so it
  never rolls back because of one. On the example stream \<open>Cancel\<close> records its error and
  returns nil, and the \<open>Done\<close> that follows commits the transaction and returns nil.
\<close>

theorem Done_ignores_recorded_error:
  "Done (SetError e c) = (fst (Done c), SetError e (snd (Done c))) \<and>
   (case Cancel example_stream of
      Panic s \<Rightarrow> False
    | Ok (r, ss') \<Rightarrow>
        r = None \<and>
        map_option recorded (ex ss') = Some (Some (ErrorString ''Session stream cancelled'')) \<and>
        map_option (\<lambda>c. fst (Done c)) (ex ss') = Some None \<and>
        map_option (\<lambda>c. map_option status (tx (snd (Done c)))) (ex ss') = Some (Some TxCommitted))"
proof
  show "Done (SetError e c) = (fst (Done c), SetError e (snd (Done c)))"
    by (simp add: Done_def SetError_def cf_def split_beta split: option.splits)
  show "(case Cancel example_stream of
      Panic s \<Rightarrow> False
    | Ok (r, ss') \<Rightarrow>
        r = None \<and>
        map_option recorded (ex ss') = Some (Some (ErrorString ''Session stream cancelled'')) \<and>
        map_option (\<lambda>c. fst (Done c)) (ex ss') = Some None \<and>
        map_option (\<lambda>c. map_option status (tx (snd (Done c)))) (ex ss') = Some (Some TxCommitted))"
    by code_simp
qed

subsection \<open>Session constructor\<close>

lemma getdbop_connectNoSSL: "getdbop newPostgressDbOper ''connectNoSSL'' = Ok connect_no_ssl_postgres"
  by (simp add: getdbop_def dbops_def newPostgressDbOper_def POSTGRES_def CONNECT_NO_SSL_def)

lemma getdbop_connectSSL: "getdbop newPostgressDbOper ''connectSSL'' = Ok connect_ssl_postgres"
  by (simp add: getdbop_def dbops_def newPostgressDbOper_def POSTGRES_def CONNECT_NO_SSL_def
      CONNECT_SSL_def)

text \<open>
  Claim C7. For a configuration of type postgres: with exactly one hostname, a password,
  a user and no certificate directory, the no-SSL template is chosen and the handle is
  opened on it; with a certificate directory and a user, the SSL template is chosen, and
  the handle is opened on it when there is a hostname; in every other case the
  constructor returns the configuration error and no session.
\<close>

theorem NewSession_postgres_template:
  assumes "GetTypeName conf = ''postgres''"
  shows "(length (GetHostNames conf) = 1 \<and> GetPassword conf \<noteq> [] \<and> GetCertDir conf = [] \<and>
          GetUser conf \<noteq> [] \<longrightarrow>
            postgres_constr newPostgressDbOper (GetUser conf) (GetPassword conf) (GetCertDir conf)
              (GetHostNames conf) = Ok (Inr connect_no_ssl_postgres) \<and>
            NewSession env conf sid n =
              open_session env conf sid n newPostgressDbOper
                (Sprintf_s connect_no_ssl_postgres
                   [GetUser conf, GetPassword conf, GetDatabaseName conf, hd (GetHostNames conf)])) \<and>
         (GetCertDir conf \<noteq> [] \<and> GetUser conf \<noteq> [] \<longrightarrow>
            postgres_constr newPostgressDbOper (GetUser conf) (GetPassword conf) (GetCertDir conf)
              (GetHostNames conf) = Ok (Inr connect_ssl_postgres) \<and>
            (GetHostNames conf \<noteq> [] \<longrightarrow>
               NewSession env conf sid n =
                 open_session env conf sid n newPostgressDbOper
                   (Sprintf_s connect_ssl_postgres
                      [GetUser conf, GetPassword conf, GetDatabaseName conf, hd (GetHostNames conf)]))) \<and>
         (\<not> (length (GetHostNames conf) = 1 \<and> GetPassword conf \<noteq> [] \<and> GetCertDir conf = [] \<and>
             GetUser conf \<noteq> []) \<and>
          \<not> (GetCertDir conf \<noteq> [] \<and> GetUser conf \<noteq> []) \<longrightarrow>
            NewSession env conf sid n =
              Ok (Inl (ErrorString ''Postgres sessions require a password and exactly one hostname'')))"
proof (intro conjI impI)
  assume a: "length (GetHostNames conf) = 1 \<and> GetPassword conf \<noteq> [] \<and> GetCertDir conf = [] \<and>
          GetUser conf \<noteq> []"
  then show c: "postgres_constr newPostgressDbOper (GetUser conf) (GetPassword conf) (GetCertDir conf)
              (GetHostNames conf) = Ok (Inr connect_no_ssl_postgres)"
    by (simp add: postgres_constr_def getdbop_connectNoSSL)
  from a obtain h0 where "GetHostNames conf = [h0]"
    by (cases "GetHostNames conf") auto
  with assms c show "NewSession env conf sid n =
              open_session env conf sid n newPostgressDbOper
                (Sprintf_s connect_no_ssl_postgres
                   [GetUser conf, GetPassword conf, GetDatabaseName conf, hd (GetHostNames conf)])"
    by (simp add: NewSession_def)
next
  assume b: "GetCertDir conf \<noteq> [] \<and> GetUser conf \<noteq> []"
  then show c: "postgres_constr newPostgressDbOper (GetUser conf) (GetPassword conf) (GetCertDir conf)
              (GetHostNames conf) = Ok (Inr connect_ssl_postgres)"
    by (simp add: postgres_constr_def getdbop_connectSSL)
  assume "GetHostNames conf \<noteq> []"
  then obtain h0 hs where "GetHostNames conf = h0 # hs"
    by (cases "GetHostNames conf") auto
  with assms c show "NewSession env conf sid n =
                 open_session env conf sid n newPostgressDbOper
                   (Sprintf_s connect_ssl_postgres
                      [GetUser conf, GetPassword conf, GetDatabaseName conf, hd (GetHostNames conf)])"
    by (simp add: NewSession_def)
next
  assume "\<not> (length (GetHostNames conf) = 1 \<and> GetPassword conf \<noteq> [] \<and> GetCertDir conf = [] \<and>
             GetUser conf \<noteq> []) \<and>
          \<not> (GetCertDir conf \<noteq> [] \<and> GetUser conf \<noteq> [])"
  then have "postgres_constr newPostgressDbOper (GetUser conf) (GetPassword conf) (GetCertDir conf)
              (GetHostNames conf) =
             Ok (Inl (ErrorString ''Postgres sessions require a password and exactly one hostname''))"
    unfolding postgres_constr_def by (simp only: if_False)
  with assms show "NewSession env conf sid n =
              Ok (Inl (ErrorString ''Postgres sessions require a password and exactly one hostname''))"
    by (simp add: NewSession_def)
qed

theorem NewSession_postgres_template_witness:
  "GetTypeName example_conf = ''postgres'' \<and>
   NewSession echo_session_env example_conf ''s1'' 4 =
     Ok (Inl (Wrapped ''sql open'' (ErrorString
       ''user=bgpmon password=secret dbname=bgpmon host=localhost sslmode=disable''))) \<and>
   NewSession echo_session_env example_ssl_conf ''s1'' 4 =
     Ok (Inl (Wrapped ''sql open'' (ErrorString
       ''user=bgpmon password= dbname=bgpmon host=localhost''))) \<and>
   NewSession echo_session_env example_bad_conf ''s1'' 4 =
     Ok (Inl (ErrorString ''Postgres sessions require a password and exactly one hostname'')) \<and>
   NewSession example_session_env example_conf ''s1'' 4 = Ok (Inr example_session)"
proof -
  have t: "GetTypeName example_conf = ''postgres''" "GetTypeName example_ssl_conf = ''postgres''"
    "GetTypeName example_bad_conf = ''postgres''"
    by (simp_all add: example_conf_def example_ssl_conf_def example_bad_conf_def)
  have 1: "NewSession echo_session_env example_conf ''s1'' 4 =
     Ok (Inl (Wrapped ''sql open'' (ErrorString
       ''user=bgpmon password=secret dbname=bgpmon host=localhost sslmode=disable'')))"
    using NewSession_postgres_template [OF t(1), of echo_session_env "''s1''" 4]
    by (simp add: example_conf_def open_session_def echo_session_env_def connect_no_ssl_postgres_def)
  have 2: "NewSession echo_session_env example_ssl_conf ''s1'' 4 =
     Ok (Inl (Wrapped ''sql open'' (ErrorString
       ''user=bgpmon password= dbname=bgpmon host=localhost'')))"
    using NewSession_postgres_template [OF t(2), of echo_session_env "''s1''" 4]
    by (simp add: example_conf_def example_ssl_conf_def open_session_def echo_session_env_def
        connect_ssl_postgres_def)
  have 3: "NewSession echo_session_env example_bad_conf ''s1'' 4 =
     Ok (Inl (ErrorString ''Postgres sessions require a password and exactly one hostname''))"
    using NewSession_postgres_template [OF t(3), of echo_session_env "''s1''" 4]
    by (simp add: example_conf_def example_bad_conf_def)
  have 4: "NewSession example_session_env example_conf ''s1'' 4 = Ok (Inr example_session)"
    using NewSession_postgres_template [OF t(1), of example_session_env "''s1''" 4]
    by (simp add: example_conf_def open_session_def example_session_env_def example_session_def)
  from t(1) 1 2 3 4 show ?thesis by (intro conjI)
qed

text \<open>
  Claim C10. A postgres configuration with a certificate directory and a user but no
  hostname passes the SSL test, and the constructor then panics on \<^verbatim>\<open>h[0]\<close> instead of
  returning an error.
\<close>

theorem NewSession_no_hostname_panics:
  assumes "GetTypeName conf = ''postgres''" and "GetCertDir conf \<noteq> []" and "GetUser conf \<noteq> []"
    and "GetHostNames conf = []"
  shows "NewSession env conf sid n = Panic ''runtime error: index out of range [0] with length 0''"
  using assms by (simp add: NewSession_def postgres_constr_def getdbop_connectSSL)

theorem NewSession_no_hostname_panics_witness:
  "GetTypeName example_nohost_conf = ''postgres'' \<and> GetCertDir example_nohost_conf \<noteq> [] \<and>
   GetUser example_nohost_conf \<noteq> [] \<and> GetHostNames example_nohost_conf = [] \<and>
   NewSession example_session_env example_nohost_conf ''s1'' 4 =
     Panic ''runtime error: index out of range [0] with length 0''"
proof -
  have h: "GetTypeName example_nohost_conf = ''postgres''" "GetCertDir example_nohost_conf \<noteq> []"
    "GetUser example_nohost_conf \<noteq> []" "GetHostNames example_nohost_conf = []"
    by (simp_all add: example_nohost_conf_def example_ssl_conf_def example_conf_def)
  from h NewSession_no_hostname_panics [OF h, of example_session_env "''s1''" 4]
  show ?thesis by (intro conjI)
qed

subsection \<open>Session close\<close>

text \<open>
  Claim C6, as the code has it. On a session whose cancel channel is open, \<open>Close\<close> closes
  the channel; it then waits while worker slots are outstanding, and otherwise closes the
  pool, stops the schema manager and returns nil. The database handle is as before in
  every case: \<open>Close\<close> does not close it.
\<close>

theorem Session_Close_effects:
  assumes "\<not> cancel_closed s"
  shows "(wp_running (wp s) = 0 \<longrightarrow>
            Session_Close s =
              Return None (s\<lparr>cancel_closed := True, wp := (wp s)\<lparr>wp_closed := True\<rparr>,
                             schema := (schema s)\<lparr>sm_stopped := True\<rparr>\<rparr>)) \<and>
         (wp_running (wp s) \<noteq> 0 \<longrightarrow> Session_Close s = Block (s\<lparr>cancel_closed := True\<rparr>)) \<and>
         (case Session_Close s of
            Crash m \<Rightarrow> False
          | Block s' \<Rightarrow> cancel_closed s' \<and> sdb s' = sdb s
          | Return r s' \<Rightarrow>
              r = None \<and> cancel_closed s' \<and> wp_closed (wp s') \<and> sm_stopped (schema s') \<and>
              sdb s' = sdb s)"
  using assms
  by (simp add: Session_Close_def WorkerPool_Close_def schemaMgr_stop_def Let_def)

theorem Session_Close_effects_witness:
  "\<not> cancel_closed example_session \<and>
   Session_Close example_session =
     Return None (example_session\<lparr>cancel_closed := True,
                                  wp := \<lparr>wp_max = 4, wp_running = 0, wp_closed = True\<rparr>,
                                  schema := \<lparr>sm_stopped = True\<rparr>\<rparr>) \<and>
   Session_Close (example_session\<lparr>wp := \<lparr>wp_max = 4, wp_running = 1, wp_closed = False\<rparr>\<rparr>) =
     Block (example_session\<lparr>wp := \<lparr>wp_max = 4, wp_running = 1, wp_closed = False\<rparr>,
                            cancel_closed := True\<rparr>)"
proof -
  have o: "\<not> cancel_closed example_session"
    "\<not> cancel_closed (example_session\<lparr>wp := \<lparr>wp_max = 4, wp_running = 1, wp_closed = False\<rparr>\<rparr>)"
    by (simp_all add: example_session_def)
  show ?thesis
    using o Session_Close_effects [OF o(1)] Session_Close_effects [OF o(2)]
    by (simp add: example_session_def NewWorkerPool_def newSchemaMgr_def)
qed

text \<open>
  The claim as stated fails: after \<open>Close\<close> has returned on the example session, the
  database handle is still open.
\<close>

theorem Session_Close_leaves_db_open:
  "\<not> db_closed (sdb example_session) \<and>
   (case Session_Close example_session of
      Crash m \<Rightarrow> False
    | Block s' \<Rightarrow> False
    | Return r s' \<Rightarrow> r = None \<and> \<not> db_closed (sdb s'))"
  by (simp add: Session_Close_def WorkerPool_Close_def example_session_def NewWorkerPool_def
      example_db_def Let_def)

subsection \<open>Write stream: the goroutines\<close>

lemma stuck_iff: "stuck ops c \<longleftrightarrow> (\<forall>a. step ops a c = None)"
proof
  assume s: "stuck ops c"
  show "\<forall>a. step ops a c = None"
  proof
    fix a
    from s show "step ops a c = None"
      by (cases a) (simp_all add: stuck_def)
  qed
next
  assume "\<forall>a. step ops a c = None"
  then show "stuck ops c" by (simp add: stuck_def)
qed

lemma stuck_run: "stuck ops c \<Longrightarrow> run ops sched c = Some c' \<Longrightarrow> sched = [] \<and> c' = c"
  by (cases sched) (simp_all add: stuck_iff)

lemma in_step_new: "in_step (new_config ss calls)"
  by (simp add: in_step_def new_config_def)

lemma in_step_step:
  assumes "in_step c" and "step ops a c = Some c'"
  shows "in_step c'"
proof (cases a)
  case SessionClose
  with assms show ?thesis
    by (auto simp: step_def in_step_def split: if_splits)
next
  case FwdParent
  with assms show ?thesis
    by (auto simp: step_def in_step_def split: if_splits)
next
  case FwdChild
  with assms show ?thesis
    by (auto simp: step_def in_step_def split: if_splits)
next
  case ListenCancel
  with assms show ?thesis
    by (auto simp: step_def in_step_def listen_cancel_def Let_def split: if_splits fwd_state.splits)
next
  case ListenReq
  with assms show ?thesis
    by (auto simp: step_def in_step_def listen_req_def
        split: if_splits own_state.splits result.splits)
next
  case RespRecv
  with assms show ?thesis
    by (auto simp: step_def in_step_def Send_receive_def split: if_splits lis_state.splits)
next
  case OwnerStep
  with assms show ?thesis
    by (auto simp: step_def in_step_def owner_call_def Send_begin_def Close_req_def
        split: if_splits own_state.splits list.splits call.splits result.splits prod.splits
          option.splits sum.splits lis_state.splits)
qed

lemma in_step_run: "in_step c \<Longrightarrow> run ops sched c = Some c' \<Longrightarrow> in_step c'"
proof (induction sched arbitrary: c)
  case Nil
  then show ?case by simp
next
  case (Cons a sched)
  from Cons.prems(2) obtain c1 where "step ops a c = Some c1" "run ops sched c1 = Some c'"
    by (auto split: option.splits)
  with Cons.IH in_step_step [OF Cons.prems(1)] show ?case by blast
qed


subsection \<open>Write stream: a write at a session close\<close>

text \<open>
  From a new stream and along every schedule, a reply that \<open>Send\<close> receives on the
  response channel is the one the listener sends for a request, the result of
  \<open>addToBuffer\<close>: the owner is never at its receive while the listener offers the reply
  \<^verbatim>\<open>Channel closed\<close>, nor after the listener has returned.
\<close>

theorem received_reply_is_result:
  assumes "run ops sched (new_config ss calls) = Some c" and "step ops RespRecv c = Some c'"
  shows "\<exists>r. listener c = LisReply r \<and> results c' = results c @ [r] \<and> listener c' = LisSelect"
proof -
  from in_step_run [OF in_step_new assms(1)] have i: "in_step c" .
  from assms(2) have w: "owner c = OwnWaiting" and p: "panicked c = None"
    by (auto simp: step_def split: if_splits)
  from i w obtain r where r: "listener c = LisReply r"
    by (cases "listener c") (simp_all add: in_step_def)
  with assms(2) w p show ?thesis
    by (auto simp: step_def Send_receive_def)
qed

theorem received_reply_is_result_witness:
  "(case run insert_buffer_ops [OwnerStep, ListenReq]
          (new_config example_stream [CallSend example_request (Inr ''t1'')]) of
      None \<Rightarrow> False
    | Some c \<Rightarrow>
        listener c = LisReply None \<and> owner c = OwnWaiting \<and> results c = [] \<and>
        (case step insert_buffer_ops RespRecv c of
           None \<Rightarrow> False
         | Some c' \<Rightarrow> results c' = [None] \<and> listener c' = LisSelect \<and> owner c' = OwnIdle))"
proof -
  let ?c0 = "new_config example_stream [CallSend example_request (Inr ''t1'')]"
  have "case run insert_buffer_ops [OwnerStep, ListenReq] ?c0 of None \<Rightarrow> False | Some c \<Rightarrow> True"
    by code_simp
  then obtain c where 1: "run insert_buffer_ops [OwnerStep, ListenReq] ?c0 = Some c"
    by (cases "run insert_buffer_ops [OwnerStep, ListenReq] ?c0") auto
  have "case run insert_buffer_ops [OwnerStep, ListenReq] ?c0 of
          None \<Rightarrow> False
        | Some c \<Rightarrow> owner c = OwnWaiting \<and> results c = [] \<and>
            (case step insert_buffer_ops RespRecv c of None \<Rightarrow> False | Some c' \<Rightarrow> owner c' = OwnIdle)"
    by code_simp
  with 1 obtain c' where 2: "step insert_buffer_ops RespRecv c = Some c'"
    and o: "owner c = OwnWaiting" "results c = []" "owner c' = OwnIdle"
    by (cases "step insert_buffer_ops RespRecv c") auto
  from received_reply_is_result [OF 1 2] obtain r where
    r: "listener c = LisReply r" "results c' = results c @ [r]" "listener c' = LisSelect"
    by blast
  have "case run insert_buffer_ops [OwnerStep, ListenReq] ?c0 of
          None \<Rightarrow> False | Some c \<Rightarrow> listener c = LisReply None"
    by code_simp
  with 1 r have "r = None" by simp
  with 1 2 o r show ?thesis by simp
qed

text \<open>
  Once the listener has taken the session's cancel signal while the owner is at its send
  on the request channel, the configuration is stuck: the listener waits to send on the
  response channel, the owner waits to send on the request channel, and \<open>Send\<close> never
  returns.
\<close>

theorem pending_send_blocked:
  assumes "panicked c = None" and "owner c = OwnSending m" and "listener c = LisClosing"
    and "forwarder c = FwdDone" and "parent_closed c"
  shows "stuck ops c \<and> (\<forall>sched c'. run ops sched c = Some c' \<longrightarrow> sched = [] \<and> c' = c)"
proof -
  from assms have s: "stuck ops c"
    by (simp add: stuck_def step_def)
  with stuck_run [OF s] show ?thesis by blast
qed

theorem pending_send_blocked_witness:
  "(case run insert_buffer_ops [OwnerStep, SessionClose, FwdParent, ListenCancel]
          (new_config example_stream [CallSend example_request (Inr ''t1'')]) of
      None \<Rightarrow> False
    | Some c \<Rightarrow>
        panicked c = None \<and> owner c = OwnSending example_message \<and> listener c = LisClosing \<and>
        forwarder c = FwdDone \<and> parent_closed c \<and> stuck insert_buffer_ops c \<and>
        run insert_buffer_ops [RespRecv] c = None \<and> run insert_buffer_ops [ListenReq] c = None)"
proof -
  obtain c where c: "run insert_buffer_ops [OwnerStep, SessionClose, FwdParent, ListenCancel]
          (new_config example_stream [CallSend example_request (Inr ''t1'')]) = Some c"
    and p: "panicked c = None" "owner c = OwnSending example_message" "listener c = LisClosing"
      "forwarder c = FwdDone" "parent_closed c"
    by (simp add: new_config_def step_def owner_call_def Send_begin_def example_request_def
        example_message_def listen_cancel_def Let_def)
  from pending_send_blocked [OF p, of insert_buffer_ops]
  have s: "stuck insert_buffer_ops c"
    and n: "\<forall>sched c'. run insert_buffer_ops sched c = Some c' \<longrightarrow> sched = [] \<and> c' = c"
    by blast+
  have "run insert_buffer_ops [a] c = None" for a
  proof (cases "run insert_buffer_ops [a] c")
    case None
    then show ?thesis .
  next
    case (Some c')
    with n have "[a] = []" by blast
    then show ?thesis by simp
  qed
  with c p s show ?thesis by simp
qed

text \<open>
  Claim C1 on the code, for one write on a new stream and a session close. If the
  listener takes the cancel signal while the \<open>Send\<close> is at its send on the request channel,
  or before the \<open>Send\<close> gets there, the system is stuck with the \<open>Send\<close> still at that
  send: it has returned nothing, and the listener waits to send \<^verbatim>\<open>Channel closed\<close> on the
  response channel, where nobody receives. If the listener takes the request first, the
  \<open>Send\<close> returns the result of \<open>addToBuffer\<close>, nil, and not an error. In all three runs
  the transaction stays open.
\<close>

theorem pending_write_deadlock:
  "(case run insert_buffer_ops [OwnerStep, SessionClose, FwdParent, ListenCancel]
          (new_config example_stream [CallSend example_request (Inr ''t1'')]) of
      None \<Rightarrow> False
    | Some c \<Rightarrow>
        owner c = OwnSending example_message \<and> listener c = LisClosing \<and> results c = [] \<and>
        tx_status_of c = Some TxOpen \<and> stuck insert_buffer_ops c) \<and>
   (case run insert_buffer_ops [SessionClose, FwdParent, ListenCancel, OwnerStep]
          (new_config example_stream [CallSend example_request (Inr ''t1'')]) of
      None \<Rightarrow> False
    | Some c \<Rightarrow>
        owner c = OwnSending example_message \<and> listener c = LisClosing \<and> results c = [] \<and>
        tx_status_of c = Some TxOpen \<and> stuck insert_buffer_ops c) \<and>
   (case run insert_buffer_ops
          [OwnerStep, SessionClose, FwdParent, ListenReq, RespRecv, ListenCancel]
          (new_config example_stream [CallSend example_request (Inr ''t1'')]) of
      None \<Rightarrow> False
    | Some c \<Rightarrow>
        owner c = OwnIdle \<and> listener c = LisClosing \<and> results c = [None] \<and>
        tx_status_of c = Some TxOpen \<and> stuck insert_buffer_ops c)"
  by code_simp

end
